theory Spec2Isabelle
  imports Complex_Main "HOL-Library.Multiset"
begin

section \<open>The AI gateway route (frontend/app/api/ai/route.ts)\<close>

text \<open>
  Strings are byte lists (\<^typ>\<open>string\<close>) holding the UTF-8 encoding of the JavaScript
  string. The only non-ASCII text of the source is the two box-drawing prefixes of
  \<open>formatFileStructure\<close>; they are written out as bytes below. The character \<open>*\<close> and
  the line feed are single bytes that never occur inside a multi-byte sequence, so
  \<open>endsWith\<close>, \<open>replace\<close> and \<open>join\<close> on well-formed strings agree with their byte-level
  models.
\<close>

subsection \<open>JavaScript string helpers\<close>

definition nl :: string where
  "nl = [CHR 0x0A]"

text \<open>\<open>s.endsWith(p)\<close>\<close>

definition endsWith :: "string \<Rightarrow> string \<Rightarrow> bool" where
  "endsWith s p = (length p \<le> length s \<and> drop (length s - length p) s = p)"

text \<open>\<open>pattern.replace("*", ")\<close>: a string pattern replaces its first occurrence only.\<close>

definition replaceStar :: "string \<Rightarrow> string" where
  "replaceStar pattern = remove1 (CHR ''*'') pattern"

text \<open>\<open>xs.join(sep)\<close>\<close>

fun join :: "string \<Rightarrow> string list \<Rightarrow> string" where
  "join sep [] = []"
| "join sep [x] = x"
| "join sep (x # y # ys) = x @ sep @ join sep (y # ys)"

text \<open>
  \<open>Array.prototype.sort(cmp)\<close> is a stable sort (ECMAScript 2019); for a consistent
  comparator its result is the one of stable insertion sort, which is the model here.
\<close>

fun insertBy :: "('a \<Rightarrow> 'a \<Rightarrow> int) \<Rightarrow> 'a \<Rightarrow> 'a list \<Rightarrow> 'a list" where
  "insertBy cmp x [] = [x]"
| "insertBy cmp x (y # ys) = (if cmp x y \<le> 0 then x # y # ys else y # insertBy cmp x ys)"

fun sortBy :: "('a \<Rightarrow> 'a \<Rightarrow> int) \<Rightarrow> 'a list \<Rightarrow> 'a list" where
  "sortBy cmp [] = []"
| "sortBy cmp (x # xs) = insertBy cmp x (sortBy cmp xs)"

subsection \<open>The file tree (TFile | TFolder of lib/types)\<close>

text \<open>
  The \<open>type\<close> field (\<open>"file"\<close> or \<open>"folder"\<close>) is the constructor. \<open>children\<close> is
  \<open>None\<close> when the field is absent or is not an array.
\<close>

datatype item =
    TFile (name: string)
  | TFolder (name: string) (children: "item list option")

fun isFolder :: "item \<Rightarrow> bool" where
  "isFolder (TFolder n ch) = True"
| "isFolder (TFile n) = False"

text \<open>The box-drawing prefixes: U+251C U+2500 U+2500 and a space; U+2502 and three spaces.\<close>

definition branchGlyph :: string where
  "branchGlyph = [CHR 0xE2, CHR 0x94, CHR 0x9C, CHR 0xE2, CHR 0x94, CHR 0x80,
                  CHR 0xE2, CHR 0x94, CHR 0x80, CHR '' '']"

definition barGlyph :: string where
  "barGlyph = [CHR 0xE2, CHR 0x94, CHR 0x82, CHR '' '', CHR '' '', CHR '' '']"

text \<open>
  The comparator handed to \<open>sort\<close> (route.ts lines 36-39). \<open>lc a b\<close> is
  \<open>a.localeCompare(b)\<close>, a function of the JavaScript runtime and its locale, taken as a
  parameter.
\<close>

definition compareItems :: "(string \<Rightarrow> string \<Rightarrow> int) \<Rightarrow> item \<Rightarrow> item \<Rightarrow> int" where
  "compareItems lc a b =
     (if isFolder a = isFolder b then lc (name a) (name b)
      else if isFolder a then - 1 else 1)"

definition sortItems :: "(string \<Rightarrow> string \<Rightarrow> int) \<Rightarrow> item list \<Rightarrow> item list" where
  "sortItems lc items = sortBy (compareItems lc) items"

text \<open>
  The test on a file name (lines 45-49):
  \<open>ignoredFiles.some(pattern => name.endsWith(pattern.replace("*", ")) || name === pattern)\<close>.
  The lists \<open>ignoredFiles\<close> and \<open>ignoredFolders\<close> come from a module that is not part of
  the sources at hand; they are parameters.
\<close>

definition fileIgnored :: "string list \<Rightarrow> string \<Rightarrow> bool" where
  "fileIgnored ignoredFiles n =
     list_ex (\<lambda>pattern. endsWith n (replaceStar pattern) \<or> n = pattern) ignoredFiles"

definition folderIgnored :: "string list \<Rightarrow> string \<Rightarrow> bool" where
  "folderIgnored ignoredFolders n = list_ex (\<lambda>folder. folder = n) ignoredFolders"

text \<open>\<open>filter(Boolean)\<close> keeps the truthy entries: it drops \<open>null\<close> and the empty string.\<close>

fun truthyEntry :: "string option \<Rightarrow> bool" where
  "truthyEntry None = False"
| "truthyEntry (Some s) = (s \<noteq> [])"

lemma set_insertBy: "set (insertBy cmp x xs) = insert x (set xs)"
  by (induction xs) auto

lemma set_sortBy: "set (sortBy cmp xs) = set xs"
  by (induction xs) (auto simp: set_insertBy)

lemma set_sortItems: "set (sortItems lc items) = set items"
  by (simp add: sortItems_def set_sortBy)

lemma children_size:
  "TFolder n ch \<in> set items \<Longrightarrow> size_option (size_list size) ch < size_list size items"
  by (induction items) auto

text \<open>\<open>formatFileStructure(items, prefix)\<close>, lines 27-66.\<close>

function formatFileStructure ::
  "(string \<Rightarrow> string \<Rightarrow> int) \<Rightarrow> string list \<Rightarrow> string list \<Rightarrow>
   item list option \<Rightarrow> string \<Rightarrow> string" where
  "formatFileStructure lc ignoredFiles ignoredFolders None prefix = ''No files available''"
| "formatFileStructure lc ignoredFiles ignoredFolders (Some items) prefix =
     join nl (map the (filter truthyEntry (map
       (\<lambda>item. case item of
            TFile n \<Rightarrow>
              if \<not> fileIgnored ignoredFiles n then Some (prefix @ branchGlyph @ n) else None
          | TFolder n ch \<Rightarrow>
              if \<not> folderIgnored ignoredFolders n
              then Some (prefix @ branchGlyph @ n @ ''/'' @ nl @
                     formatFileStructure lc ignoredFiles ignoredFolders ch (prefix @ barGlyph))
              else None)
       (sortItems lc items))))"
  by pat_completeness auto
termination
proof (relation "measure (\<lambda>(lc, igf, igd, its, p). size_option (size_list size) its)")
  show "wf (measure (\<lambda>(lc, igf, igd, its, p). size_option (size_list size) its))"
    by simp
next
  fix lc :: "string \<Rightarrow> string \<Rightarrow> int" and ignoredFiles ignoredFolders :: "string list"
    and items :: "item list" and prefix :: string and x :: item and n :: string
    and ch :: "item list option"
  assume mem: "x \<in> set (sortItems lc items)" and x: "x = TFolder n ch"
  have "TFolder n ch \<in> set items"
    using mem x by (simp add: set_sortItems)
  then have "size_option (size_list size) ch < size_list size items"
    by (rule children_size)
  then show "((lc, ignoredFiles, ignoredFolders, ch, prefix @ barGlyph),
              (lc, ignoredFiles, ignoredFolders, Some items, prefix))
             \<in> measure (\<lambda>(lc, igf, igd, its, p). size_option (size_list size) its)"
    by simp
qed

subsection \<open>Values read from JSON and interpolated into template literals\<close>

text \<open>
  The request fields that the handler interpolates are untyped JSON values. A value is
  \<open>undefined\<close>, \<open>null\<close>, a string, or anything else (a number, a boolean, an object); of
  such a value the handler only uses what \<open>ToString\<close> makes of it and whether it is
  truthy, so \<open>JOther\<close> holds exactly these two. No number is printed by the model.
\<close>

datatype jsval = JUndefined | JNull | JString string | JOther string bool

text \<open>\<open>`${v}`\<close>, and the property key that \<open>obj[v]\<close> reads.\<close>

fun toStr :: "jsval \<Rightarrow> string" where
  "toStr JUndefined = ''undefined''"
| "toStr JNull = ''null''"
| "toStr (JString s) = s"
| "toStr (JOther rendering isTruthy) = rendering"

text \<open>The truthiness that \<open>||\<close>, \<open>? :\<close> and \<open>if\<close> test.\<close>

fun truthy :: "jsval \<Rightarrow> bool" where
  "truthy JUndefined = False"
| "truthy JNull = False"
| "truthy (JString s) = (s \<noteq> [])"
| "truthy (JOther rendering isTruthy) = isTruthy"

text \<open>
  What \<open>table[key]\<close> reads from an object literal: \<open>undefined\<close> when the table has no
  such property, its own entry, or, for a key such as \<open>constructor\<close>, \<open>toString\<close> or
  \<open>__proto__\<close>, a value inherited from \<open>Object.prototype\<close>. An inherited value is truthy
  and has none of the fields of an entry (\<open>generations\<close>, \<open>maxTokens\<close>, \<open>anthropicModel\<close>,
  \<open>conventions\<close> are all \<open>undefined\<close> on it).
\<close>

datatype 'a lookup = NoProperty | OwnEntry 'a | InheritedValue

subsection \<open>Process configuration and module initialisation (lines 12-24)\<close>

text \<open>An environment variable is undefined (\<open>None\<close>) or a string; \<open>strVal\<close> is the
  JavaScript value of such an optional string.\<close>

record process_env =
  AWS_ACCESS_KEY_ID :: "string option"
  AWS_SECRET_ACCESS_KEY :: "string option"
  AWS_REGION :: "string option"
  AWS_ARN :: "string option"
  ANTHROPIC_API_KEY :: "string option"
  NEXT_PUBLIC_SERVER_URL :: "string option"

definition strVal :: "string option \<Rightarrow> jsval" where
  "strVal v = (case v of None \<Rightarrow> JUndefined | Some s \<Rightarrow> JString s)"

text \<open>Line 13: \<open>!!(A && B && C && D)\<close>.\<close>

definition useBedrockClient :: "process_env \<Rightarrow> bool" where
  "useBedrockClient env =
     (truthy (strVal (AWS_ACCESS_KEY_ID env)) \<and> truthy (strVal (AWS_SECRET_ACCESS_KEY env)) \<and>
      truthy (strVal (AWS_REGION env)) \<and> truthy (strVal (AWS_ARN env)))"

record bedrock_client =
  region :: string
  accessKeyId :: "string option"
  secretAccessKey :: "string option"

definition bedrockClient :: "process_env \<Rightarrow> bedrock_client option" where
  "bedrockClient env =
     (if useBedrockClient env
      then Some \<lparr>region = (if truthy (strVal (AWS_REGION env)) then toStr (strVal (AWS_REGION env))
                             else ''us-east-1''),
                  accessKeyId = AWS_ACCESS_KEY_ID env,
                  secretAccessKey = AWS_SECRET_ACCESS_KEY env\<rparr>
      else None)"

text \<open>
  The module-level constants, evaluated once when the module is loaded. \<open>POST\<close> receives
  this record; it never reads the four AWS credentials again to choose a backend.
\<close>

record module_state =
  m_useBedrockClient :: bool
  m_bedrockClient :: "bedrock_client option"
  m_anthropicClient :: "string option"

definition moduleInit :: "process_env \<Rightarrow> module_state" where
  "moduleInit env =
     \<lparr>m_useBedrockClient = useBedrockClient env,
      m_bedrockClient = bedrockClient env,
      m_anthropicClient = ANTHROPIC_API_KEY env\<rparr>"

subsection \<open>Imported tables and runtime functions\<close>

text \<open>Numbers are given by their value: every finite double is a real number, and
  \<open>>=\<close> on finite doubles is the order of the reals.\<close>

record tier_settings =
  generations :: real
  maxTokens :: real
  anthropicModel :: string

record 'd template_config =
  tc_name :: string
  conventions :: "string list"
  dependencies :: 'd
  scripts :: 'd

text \<open>The parsed JSON envelope of one Bedrock chunk, as far as the handler reads it:
  \<open>parsed.type\<close> and \<open>parsed.delta?.text\<close> (\<open>None\<close> when absent).\<close>

record envelope =
  env_type :: "string option"
  env_delta_text :: "string option"

text \<open>
  What the route imports and does not define: the tables \<open>TIERS\<close>, \<open>templateConfigs\<close>
  (object literals, read by property name: see \<open>lookup\<close>),
  \<open>ignoredFiles\<close>, \<open>ignoredFolders\<close> of sibling modules that are not part of the sources at
  hand, and the runtime's \<open>localeCompare\<close>, \<open>JSON.parse\<close> and \<open>JSON.stringify(_, null, 2)\<close>.
  All are parameters. \<open>JSON_parse s = None\<close> stands for the \<open>try\<close> block of lines 244-251
  throwing on the decoded chunk \<open>s\<close>.
\<close>

record 'd imported =
  TIERS :: "string \<Rightarrow> tier_settings lookup"
  templateConfigs :: "string \<Rightarrow> 'd template_config lookup"
  ignoredFiles :: "string list"
  ignoredFolders :: "string list"
  localeCompare :: "string \<Rightarrow> string \<Rightarrow> int"
  JSON_parse :: "string \<Rightarrow> envelope option"
  JSON_stringify :: "'d \<Rightarrow> string"

subsection \<open>Requests, collaborator answers and effects\<close>

record message =
  role :: string
  content :: string

text \<open>The JSON body of the request (lines 112-122). \<open>files\<close> is \<open>None\<close> when the field is
  absent or not an array; \<open>ctx\<close> is the field \<open>context\<close>.\<close>

record request_body =
  messages :: "message list"
  ctx :: jsval
  activeFileContent :: jsval
  isEditMode :: bool
  fileName :: jsval
  line :: jsval
  templateType :: jsval
  files :: "item list option"
  projectName :: jsval

text \<open>A thrown value: an \<open>Error\<close> with its message, or anything else.\<close>

datatype thrown = Error string | NonError

datatype 'a awaited = Rejected thrown | Resolved 'a

text \<open>The usage record, as far as the handler reads it. \<open>ud_generations\<close> is \<open>None\<close> when
  the field is absent or not a number.\<close>

record user_data =
  ud_tier :: "string option"
  ud_generations :: "real option"

datatype stream_end = EndOfStream | StreamFails thrown

text \<open>One item of the Bedrock response body: \<open>chunk.chunk?.bytes\<close>, decoded by
  \<open>TextDecoder\<close>; \<open>None\<close> when the item has no \<open>chunk\<close> or no \<open>bytes\<close>.\<close>

datatype bedrock_event = BedrockEvent (chunkBytes: "string option")

record bedrock_response =
  bodyStream :: "(bedrock_event list \<times> stream_end) option"

text \<open>The SDK's union of stream events and of content-block deltas: an event of type
  \<open>content_block_delta\<close> always carries a delta, whose type is \<open>text_delta\<close> (with a \<open>text\<close>)
  or \<open>input_json_delta\<close>.\<close>

datatype content_block_delta = TextDelta string | InputJSONDelta string

datatype message_stream_event =
    MessageStart
  | MessageDelta
  | MessageStop
  | ContentBlockStart
  | ContentBlockDelta content_block_delta
  | ContentBlockStop

text \<open>
  Everything the outside world answers during one request: each collaborator is asked at
  most once, so one answer each is enough. \<open>currentUserResult\<close> is the user's id or
  \<open>null\<close>; the two booleans are the \<open>ok\<close> flags of the fetch responses.
\<close>

record world =
  currentUserResult :: "string option awaited"
  checkResetResult :: "bool awaited"
  dbUserResult :: "user_data awaited awaited"
  requestJson :: "request_body awaited"
  bedrockSendResult :: "bedrock_response awaited"
  anthropicCreateResult :: "(message_stream_event list \<times> stream_end) awaited"
  incrementResult :: "bool awaited"

text \<open>The payloads of the two backend calls. The fields taken from the tier settings are
  \<open>None\<close> (\<open>undefined\<close>) when the resolved tier is an inherited value.\<close>

record bedrock_input =
  modelId :: jsval
  anthropic_version :: string
  max_tokens :: "real option"
  temperature :: real
  bedrockMessages :: "message list"

record anthropic_params =
  model :: "string option"
  a_max_tokens :: "real option"
  system :: string
  anthropicMessages :: "message list"

text \<open>The calls the handler makes, in order. A \<open>Fetch\<close> holds the method, the base URL, the
  path and the \<open>userId\<close> of the JSON body.\<close>

datatype effect =
    ConsoleError string
  | Fetch string string string "string option"
  | BedrockSend bedrock_input
  | AnthropicCreate anthropic_params

text \<open>What \<open>start(controller)\<close> does to the response stream, in order.\<close>

datatype stream_action =
    Enqueue string
  | Close
  | ControllerError thrown
  | StreamLog string

datatype response_body = Text string | Stream "stream_action list"

record response =
  status :: nat
  headers :: "(string \<times> string) list"
  body :: response_body

text \<open>One step of the handler: it throws into the \<open>catch\<close> of line 324, returns a
  response early, or goes on with a value.\<close>

datatype 'a step = Throw thrown | Return response | Continue 'a

definition andThen ::
  "effect list \<times> 'a step \<Rightarrow> ('a \<Rightarrow> effect list \<times> 'b step) \<Rightarrow> effect list \<times> 'b step" where
  "andThen m f =
     (case m of
        (tr, Throw e) \<Rightarrow> (tr, Throw e)
      | (tr, Return r) \<Rightarrow> (tr, Return r)
      | (tr, Continue a) \<Rightarrow> (case f a of (tr', r) \<Rightarrow> (tr @ tr', r)))"

subsection \<open>The stream normalisers (lines 233-262 and 301-313)\<close>

definition bedrockChunk :: "(string \<Rightarrow> envelope option) \<Rightarrow> bedrock_event \<Rightarrow> stream_action list" where
  "bedrockChunk parse chunk =
     (case chunkBytes chunk of
        None \<Rightarrow> []
      | Some jsonString \<Rightarrow>
          (case parse jsonString of
             None \<Rightarrow> [StreamLog ''Error parsing Bedrock chunk:'']
           | Some parsed \<Rightarrow>
               if env_type parsed = Some ''message_start'' \<or>
                  env_type parsed = Some ''content_block_start''
               then []
               else if (env_type parsed = Some ''content_block_delta'' \<or>
                        env_type parsed = Some ''message_delta'') \<and>
                       truthy (strVal (env_delta_text parsed))
               then [Enqueue (toStr (strVal (env_delta_text parsed)))]
               else []))"

definition bedrockStart :: "(string \<Rightarrow> envelope option) \<Rightarrow> bedrock_response \<Rightarrow> stream_action list" where
  "bedrockStart parse response =
     (case bodyStream response of
        None \<Rightarrow> [StreamLog ''No response body received from Bedrock'', Close]
      | Some (chunks, ending) \<Rightarrow>
          concat (map (bedrockChunk parse) chunks) @
          (case ending of
             EndOfStream \<Rightarrow> [Close]
           | StreamFails e \<Rightarrow> [StreamLog ''Bedrock streaming error:'', ControllerError e]))"

fun anthropicChunk :: "message_stream_event \<Rightarrow> stream_action list" where
  "anthropicChunk (ContentBlockDelta (TextDelta text)) = [Enqueue text]"
| "anthropicChunk chunk = []"

definition anthropicStart :: "message_stream_event list \<times> stream_end \<Rightarrow> stream_action list" where
  "anthropicStart stream =
     (case stream of (chunks, ending) \<Rightarrow>
        concat (map anthropicChunk chunks) @
        (case ending of
           EndOfStream \<Rightarrow> [Close]
         | StreamFails e \<Rightarrow> [StreamLog ''Anthropic streaming error:'', ControllerError e]))"

text \<open>The text fragments that reach the caller, in order.\<close>

fun enqueued :: "stream_action list \<Rightarrow> string list" where
  "enqueued [] = []"
| "enqueued (Enqueue s # as) = s # enqueued as"
| "enqueued (a # as) = enqueued as"

subsection \<open>The quota gate (lines 70-110)\<close>

definition serverUrl :: "process_env \<Rightarrow> string" where
  "serverUrl env = toStr (strVal (NEXT_PUBLIC_SERVER_URL env))"

definition authenticate :: "world \<Rightarrow> effect list \<times> string step" where
  "authenticate w =
     (case currentUserResult w of
        Rejected e \<Rightarrow> ([], Throw e)
      | Resolved None \<Rightarrow> ([], Return \<lparr>status = 401, headers = [], body = Text ''Unauthorized''\<rparr>)
      | Resolved (Some uid) \<Rightarrow> ([], Continue uid))"

definition checkReset :: "process_env \<Rightarrow> world \<Rightarrow> string \<Rightarrow> effect list \<times> unit step" where
  "checkReset env w uid =
     (case checkResetResult w of
        Rejected e \<Rightarrow> ([Fetch ''POST'' (serverUrl env) ''/api/user/check-reset'' (Some uid)], Throw e)
      | Resolved ok \<Rightarrow>
          (Fetch ''POST'' (serverUrl env) ''/api/user/check-reset'' (Some uid) #
             (if \<not> ok then [ConsoleError ''Failed to check usage reset''] else []),
           Continue ()))"

definition fetchUserData :: "process_env \<Rightarrow> world \<Rightarrow> string \<Rightarrow> effect list \<times> user_data step" where
  "fetchUserData env w uid =
     (case dbUserResult w of
        Rejected e \<Rightarrow> ([Fetch ''GET'' (serverUrl env) (''/api/user?id='' @ uid) None], Throw e)
      | Resolved (Rejected e) \<Rightarrow>
          ([Fetch ''GET'' (serverUrl env) (''/api/user?id='' @ uid) None], Throw e)
      | Resolved (Resolved userData) \<Rightarrow>
          ([Fetch ''GET'' (serverUrl env) (''/api/user?id='' @ uid) None], Continue userData))"

text \<open>\<open>TIERS[userData.tier] || TIERS.FREE\<close>: an own entry and an inherited value are both
  truthy, so the fallback to \<open>TIERS.FREE\<close> is taken only when the table has no such
  property.\<close>

definition resolveTier :: "(string \<Rightarrow> tier_settings lookup) \<Rightarrow> user_data \<Rightarrow> tier_settings lookup" where
  "resolveTier tiers userData =
     (case tiers (toStr (strVal (ud_tier userData))) of
        NoProperty \<Rightarrow> tiers ''FREE''
      | OwnEntry t \<Rightarrow> OwnEntry t
      | InheritedValue \<Rightarrow> InheritedValue)"

text \<open>\<open>userData.tier || "FREE"\<close>\<close>

definition tierName :: "user_data \<Rightarrow> string" where
  "tierName userData =
     (if truthy (strVal (ud_tier userData)) then toStr (strVal (ud_tier userData)) else ''FREE'')"

text \<open>\<open>userData.generations >= tierSettings.generations\<close>; a comparison with \<open>undefined\<close>
  on either side is false.\<close>

definition generationsAtLeast :: "real option \<Rightarrow> real option \<Rightarrow> bool" where
  "generationsAtLeast g limit =
     (case g of
        None \<Rightarrow> False
      | Some n \<Rightarrow> (case limit of None \<Rightarrow> False | Some l \<Rightarrow> n \<ge> l))"

text \<open>The settings carried on after the gate: \<open>Some\<close> of an own entry, \<open>None\<close> for an
  inherited value, whose fields all read \<open>undefined\<close>.\<close>

definition quotaGate ::
  "(string \<Rightarrow> tier_settings lookup) \<Rightarrow> user_data \<Rightarrow> effect list \<times> tier_settings option step" where
  "quotaGate tiers userData =
     (case resolveTier tiers userData of
        NoProperty \<Rightarrow>
          ([], Throw (Error ''Cannot read properties of undefined (reading 'generations')''))
      | InheritedValue \<Rightarrow>
          if generationsAtLeast (ud_generations userData) None
          then ([], Return \<lparr>status = 429, headers = [],
                  body = Text (''AI generation limit reached for your '' @ tierName userData @
                               '' tier'')\<rparr>)
          else ([], Continue None)
      | OwnEntry tierSettings \<Rightarrow>
          if generationsAtLeast (ud_generations userData) (Some (generations tierSettings))
          then ([], Return \<lparr>status = 429, headers = [],
                  body = Text (''AI generation limit reached for your '' @ tierName userData @
                               '' tier'')\<rparr>)
          else ([], Continue (Some tierSettings)))"

subsection \<open>Prompt assembly (lines 112-188)\<close>

definition readRequestJson :: "world \<Rightarrow> effect list \<times> request_body step" where
  "readRequestJson w =
     (case requestJson w of
        Rejected e \<Rightarrow> ([], Throw e)
      | Resolved rq \<Rightarrow> ([], Continue rq))"

text \<open>
  \<open>templateConfigs[templateType]\<close> and the template-context block (lines 125-144). With no
  such property the block is the empty string. An inherited value is truthy, so the
  template literal is evaluated: \<open>templateConfig.conventions\<close> is \<open>undefined\<close> and
  \<open>.join\<close> throws a \<open>TypeError\<close> (here with the message of V8).
\<close>

definition templateContextOf :: "'d imported \<Rightarrow> request_body \<Rightarrow> effect list \<times> string step" where
  "templateContextOf imp rq =
     (case templateConfigs imp (toStr (templateType rq)) of
        OwnEntry templateConfig \<Rightarrow>
          ([], Continue (
            nl @ ''Project Template: '' @ tc_name templateConfig @ nl @ nl @
            ''Current File Structure:'' @ nl @
            (case files rq of
               Some fs \<Rightarrow>
                 formatFileStructure (localeCompare imp) (ignoredFiles imp) (ignoredFolders imp)
                   (Some fs) []
             | None \<Rightarrow> ''No files available'') @ nl @ nl @
            ''Conventions:'' @ nl @ join nl (conventions templateConfig) @ nl @ nl @
            ''Dependencies:'' @ nl @ JSON_stringify imp (dependencies templateConfig) @ nl @ nl @
            ''Scripts:'' @ nl @ JSON_stringify imp (scripts templateConfig) @ nl))
      | InheritedValue \<Rightarrow>
          ([], Throw (Error ''Cannot read properties of undefined (reading 'join')''))
      | NoProperty \<Rightarrow> ([], Continue []))"

text \<open>The edit-mode template (lines 149-163), before and after \<open>${templateContext}\<close>.\<close>

definition editHead :: "request_body \<Rightarrow> string" where
  "editHead rq =
      ''You are an AI code editor working in a '' @ toStr (templateType rq) @
      '' project. Your task is to modify the given code based on the '' @
      ''user's instructions. Only output the modified code, without any '' @
      ''explanations or markdown formatting. The code should be a '' @
      ''direct replacement for the existing code. If there is no code '' @
      ''to modify, refer to the active file content and only output the '' @
      ''code that is relevant to the user's instructions.... '' @ nl"

definition editTail :: "request_body \<Rightarrow> string \<Rightarrow> string" where
  "editTail rq instruction =
      nl @ nl @ ''File: '' @ toStr (fileName rq) @ nl @ ''Line: '' @ toStr (line rq) @ nl @ nl @
      ''Context:'' @ nl @
      (if truthy (ctx rq) then toStr (ctx rq) else ''No additional context provided'') @ nl @
      nl @ ''Active File Content:'' @ nl @ toStr (activeFileContent rq) @ nl @ nl @
      ''Instructions: '' @ instruction @ nl @ nl @
      ''Respond only with the modified code that can directly replace '' @
      ''the existing code.''"

text \<open>The explanation-mode template (lines 165-187), before and after
  \<open>${templateContext}\<close>.\<close>

definition explainHead :: "request_body \<Rightarrow> string" where
  "explainHead rq =
      ''You are an intelligent programming assistant for a '' @ toStr (templateType rq) @
      '' project. Please respond to the following request concisely. '' @
      ''When providing code:'' @ nl @ nl @
      ''1. Format it using triple backticks (```) with the appropriate '' @
      ''language identifier.'' @ nl @
      ''2. Always specify the complete file path in the format:'' @ nl @ ''   '' @
      toStr (projectName rq) @ ''/filepath/to/file.ext'' @ nl @ nl @
      ''3. If creating a new file, specify the path as:'' @ nl @ ''   '' @
      toStr (projectName rq) @ ''/filepath/to/file.ext (new file)'' @ nl @ nl @
      ''4. Format your code blocks as:'' @ nl @ nl @ toStr (projectName rq) @
      ''/filepath/to/file.ext'' @ nl @ ''```language'' @ nl @ ''code here'' @ nl @ ''```'' @
      nl @ nl @ ''If multiple files are involved, repeat the format for each '' @
      ''file. Provide a clear and concise explanation along with any '' @
      ''code snippets. Keep your response brief and to the point.'' @ nl @ nl @
      ''This is the project template:'' @ nl"

definition explainTail :: "request_body \<Rightarrow> string" where
  "explainTail rq =
      nl @ nl @
      (if truthy (ctx rq) then ''Context:'' @ nl @ toStr (ctx rq) @ nl else []) @ nl @
      (if truthy (activeFileContent rq)
       then ''Active File Content:'' @ nl @ toStr (activeFileContent rq) @ nl else [])"

text \<open>\<open>messages[0].content\<close> on an empty list reads a property of \<open>undefined\<close>: a
  \<open>TypeError\<close>, here with the message of V8.\<close>

definition systemMessageOf :: "'d imported \<Rightarrow> request_body \<Rightarrow> effect list \<times> string step" where
  "systemMessageOf imp rq =
     andThen (templateContextOf imp rq) (\<lambda>templateContext.
       if isEditMode rq
       then (case messages rq of
               [] \<Rightarrow> ([], Throw (Error ''Cannot read properties of undefined (reading 'content')''))
             | m # ms \<Rightarrow>
                 ([], Continue (editHead rq @ templateContext @ editTail rq (content m))))
       else ([], Continue (explainHead rq @ templateContext @ explainTail rq)))"

subsection \<open>Dispatch, usage increment and the handler (lines 190-330)\<close>

definition toBackendRole :: "message \<Rightarrow> message" where
  "toBackendRole msg =
     \<lparr>role = (if role msg = ''human'' then ''user'' else ''assistant''), content = content msg\<rparr>"

definition streamHeaders :: "(string \<times> string) list" where
  "streamHeaders =
     [(''Content-Type'', ''text/plain; charset=utf-8''), (''Cache-Control'', ''no-cache''),
      (''Connection'', ''keep-alive'')]"

definition incrementGenerations :: "process_env \<Rightarrow> world \<Rightarrow> string \<Rightarrow> effect list \<times> unit step" where
  "incrementGenerations env w uid =
     (case incrementResult w of
        Rejected e \<Rightarrow>
          ([Fetch ''POST'' (serverUrl env) ''/api/user/increment-generations'' (Some uid)], Throw e)
      | Resolved ok \<Rightarrow>
          ([Fetch ''POST'' (serverUrl env) ''/api/user/increment-generations'' (Some uid)],
           Continue ()))"

definition bedrockInputOf :: "process_env \<Rightarrow> tier_settings option \<Rightarrow> request_body \<Rightarrow> string \<Rightarrow> bedrock_input" where
  "bedrockInputOf env tierSettings rq systemMessage =
     \<lparr>modelId = strVal (AWS_ARN env),
      anthropic_version = ''bedrock-2023-05-31'',
      max_tokens = map_option maxTokens tierSettings,
      temperature = 7 / 10,
      bedrockMessages = \<lparr>role = ''user'', content = systemMessage\<rparr> # map toBackendRole (messages rq)\<rparr>"

definition anthropicParamsOf :: "tier_settings option \<Rightarrow> request_body \<Rightarrow> string \<Rightarrow> anthropic_params" where
  "anthropicParamsOf tierSettings rq systemMessage =
     \<lparr>model = map_option anthropicModel tierSettings,
      a_max_tokens = map_option maxTokens tierSettings,
      system = systemMessage,
      anthropicMessages = map toBackendRole (messages rq)\<rparr>"

definition bedrockSend :: "world \<Rightarrow> bedrock_input \<Rightarrow> effect list \<times> bedrock_response step" where
  "bedrockSend w input =
     (case bedrockSendResult w of
        Rejected e \<Rightarrow> ([BedrockSend input], Throw e)
      | Resolved response \<Rightarrow> ([BedrockSend input], Continue response))"

definition anthropicCreate ::
  "world \<Rightarrow> anthropic_params \<Rightarrow> effect list \<times> (message_stream_event list \<times> stream_end) step" where
  "anthropicCreate w params =
     (case anthropicCreateResult w of
        Rejected e \<Rightarrow> ([AnthropicCreate params], Throw e)
      | Resolved stream \<Rightarrow> ([AnthropicCreate params], Continue stream))"

definition dispatch ::
  "'d imported \<Rightarrow> module_state \<Rightarrow> process_env \<Rightarrow> world \<Rightarrow> string \<Rightarrow> tier_settings option \<Rightarrow>
   request_body \<Rightarrow> string \<Rightarrow> effect list \<times> response step" where
  "dispatch imp m env w uid tierSettings rq systemMessage =
     (if m_useBedrockClient m \<and> m_bedrockClient m \<noteq> None
      then
        andThen (bedrockSend w (bedrockInputOf env tierSettings rq systemMessage)) (\<lambda>response.
        andThen (incrementGenerations env w uid) (\<lambda>u.
          ([], Continue \<lparr>status = 200, headers = streamHeaders,
                          body = Stream (bedrockStart (JSON_parse imp) response)\<rparr>)))
      else
        andThen (anthropicCreate w (anthropicParamsOf tierSettings rq systemMessage)) (\<lambda>stream.
        andThen (incrementGenerations env w uid) (\<lambda>u.
          ([], Continue \<lparr>status = 200, headers = streamHeaders,
                          body = Stream (anthropicStart stream)\<rparr>))))"

text \<open>The body of the \<open>try\<close> block.\<close>

definition POST_try ::
  "'d imported \<Rightarrow> module_state \<Rightarrow> process_env \<Rightarrow> world \<Rightarrow> effect list \<times> response step" where
  "POST_try imp m env w =
     andThen (authenticate w) (\<lambda>uid.
     andThen (checkReset env w uid) (\<lambda>u.
     andThen (fetchUserData env w uid) (\<lambda>userData.
     andThen (quotaGate (TIERS imp) userData) (\<lambda>tierSettings.
     andThen (readRequestJson w) (\<lambda>rq.
     andThen (systemMessageOf imp rq) (\<lambda>systemMessage.
       dispatch imp m env w uid tierSettings rq systemMessage))))))"

text \<open>\<open>POST\<close>: the calls made, in order, and the response. \<open>m\<close> is the module state
  computed at load time, \<open>env\<close> the process environment at the time of the request.\<close>

definition POST ::
  "'d imported \<Rightarrow> module_state \<Rightarrow> process_env \<Rightarrow> world \<Rightarrow> effect list \<times> response" where
  "POST imp m env w =
     (case POST_try imp m env w of
        (tr, Throw e) \<Rightarrow>
          (tr @ [ConsoleError ''AI generation error:''],
           \<lparr>status = 500, headers = [],
            body = Text (case e of Error msg \<Rightarrow> msg | NonError \<Rightarrow> ''Internal Server Error'')\<rparr>)
      | (tr, Return r) \<Rightarrow> (tr, r)
      | (tr, Continue r) \<Rightarrow> (tr, r))"

section \<open>Vocabulary of the properties\<close>

subsection \<open>The file tree\<close>

text \<open>The two tests of the \<open>map\<close> callback (lines 43-54), and what the callback returns for
  an item that passes them (lines 51 and 56-60).\<close>

definition itemIgnored :: "string list \<Rightarrow> string list \<Rightarrow> item \<Rightarrow> bool" where
  "itemIgnored igf igd item =
     (case item of TFile n \<Rightarrow> fileIgnored igf n | TFolder n ch \<Rightarrow> folderIgnored igd n)"

definition renderItem ::
  "(string \<Rightarrow> string \<Rightarrow> int) \<Rightarrow> string list \<Rightarrow> string list \<Rightarrow> string \<Rightarrow> item \<Rightarrow> string" where
  "renderItem lc igf igd prefix item =
     (case item of
        TFile n \<Rightarrow> prefix @ branchGlyph @ n
      | TFolder n ch \<Rightarrow>
          prefix @ branchGlyph @ n @ ''/'' @ nl @ formatFileStructure lc igf igd ch (prefix @ barGlyph))"

text \<open>
  A consistent comparator in the sense of ECMAScript: the sign of \<open>lc a b\<close> is opposite to
  the one of \<open>lc b a\<close>, and \<open>\<le>\<close> is transitive. \<open>Array.prototype.sort\<close> only promises a
  sorted result for such a comparator. \<open>compareLength\<close> is one, used in the examples.
\<close>

definition consistentComparator :: "(string \<Rightarrow> string \<Rightarrow> int) \<Rightarrow> bool" where
  "consistentComparator lc =
     ((\<forall>a b. (lc a b < 0) = (lc b a > 0)) \<and>
      (\<forall>a b c. lc a b \<le> 0 \<longrightarrow> lc b c \<le> 0 \<longrightarrow> lc a c \<le> 0))"

definition compareLength :: "string \<Rightarrow> string \<Rightarrow> int" where
  "compareLength a b = int (length a) - int (length b)"

text \<open>
  The file test as the specification words it: equality with the pattern, or a suffix
  match after stripping a trailing wildcard from the pattern. It is compared with
  \<open>fileIgnored\<close>, which is the test of the source.
\<close>

definition stripTrailingWildcard :: "string \<Rightarrow> string" where
  "stripTrailingWildcard pattern =
     (if pattern \<noteq> [] \<and> last pattern = CHR ''*'' then butlast pattern else pattern)"

definition fileIgnoredAsStated :: "string list \<Rightarrow> string \<Rightarrow> bool" where
  "fileIgnoredAsStated patterns n =
     list_ex (\<lambda>pattern. n = pattern \<or> endsWith n (stripTrailingWildcard pattern)) patterns"

subsection \<open>Calls and streams\<close>

fun isBedrockSend :: "effect \<Rightarrow> bool" where
  "isBedrockSend (BedrockSend input) = True"
| "isBedrockSend e = False"

fun isAnthropicCreate :: "effect \<Rightarrow> bool" where
  "isAnthropicCreate (AnthropicCreate params) = True"
| "isAnthropicCreate e = False"

fun isIncrement :: "effect \<Rightarrow> bool" where
  "isIncrement (Fetch method base path uid) = (path = ''/api/user/increment-generations'')"
| "isIncrement e = False"

fun isConsoleError :: "effect \<Rightarrow> bool" where
  "isConsoleError (ConsoleError msg) = True"
| "isConsoleError e = False"

text \<open>
  The text payloads as the specification words them: of the Bedrock envelopes of kind
  \<open>content_block_delta\<close> or \<open>message_delta\<close> that carry a text delta, and of the Anthropic
  events of kind \<open>content_block_delta\<close> whose delta is a text delta, in arrival order.
\<close>

definition bedrockTextPayloads ::
  "(string \<Rightarrow> envelope option) \<Rightarrow> bedrock_event list \<Rightarrow> string list" where
  "bedrockTextPayloads parse chunks =
     concat (map (\<lambda>chunk.
       case chunkBytes chunk of
         None \<Rightarrow> []
       | Some bytes \<Rightarrow>
           (case parse bytes of
              None \<Rightarrow> []
            | Some parsed \<Rightarrow>
                if env_type parsed = Some ''content_block_delta'' \<or>
                   env_type parsed = Some ''message_delta''
                then (case env_delta_text parsed of None \<Rightarrow> [] | Some text \<Rightarrow> [text])
                else [])) chunks)"

definition anthropicTextPayloads :: "message_stream_event list \<Rightarrow> string list" where
  "anthropicTextPayloads events =
     concat (map (\<lambda>event.
       case event of ContentBlockDelta (TextDelta text) \<Rightarrow> [text] | _ \<Rightarrow> []) events)"

subsection \<open>Example inputs\<close>

text \<open>\<open>exampleParse\<close> stands in for \<open>JSON.parse\<close> and the property reads after it: it
  fails on one input and reads every other chunk as a text delta with that text. The
  two example tables have the inherited key \<open>constructor\<close>, as every object literal has.\<close>

definition exampleParse :: "string \<Rightarrow> envelope option" where
  "exampleParse s =
     (if s = ''not json'' then None
      else Some \<lparr>env_type = Some ''content_block_delta'', env_delta_text = Some s\<rparr>)"

definition exampleTiers :: "string \<Rightarrow> tier_settings lookup" where
  "exampleTiers key =
     (if key = ''FREE''
      then OwnEntry \<lparr>generations = 10, maxTokens = 1024, anthropicModel = ''model-a''\<rparr>
      else if key = ''PRO''
      then OwnEntry \<lparr>generations = 500, maxTokens = 4096, anthropicModel = ''model-b''\<rparr>
      else if key = ''constructor'' then InheritedValue
      else NoProperty)"

definition exampleTemplates :: "string \<Rightarrow> string template_config lookup" where
  "exampleTemplates key =
     (if key = ''reactjs''
      then OwnEntry \<lparr>tc_name = ''React'', conventions = [''Use function components''],
                      dependencies = ''{}'', scripts = ''{}''\<rparr>
      else if key = ''constructor'' then InheritedValue
      else NoProperty)"

definition exampleStringify :: "string \<Rightarrow> string" where
  "exampleStringify d = d"

definition exampleImports :: "string imported" where
  "exampleImports =
     \<lparr>TIERS = exampleTiers,
      templateConfigs = exampleTemplates,
      ignoredFiles = [''*.log'', ''.env''],
      ignoredFolders = [''node_modules''],
      localeCompare = compareLength,
      JSON_parse = exampleParse,
      JSON_stringify = exampleStringify\<rparr>"

definition exampleEnv :: process_env where
  "exampleEnv =
     \<lparr>AWS_ACCESS_KEY_ID = Some ''key'', AWS_SECRET_ACCESS_KEY = Some ''secret'',
      AWS_REGION = Some ''eu-west-1'', AWS_ARN = Some ''arn:model'',
      ANTHROPIC_API_KEY = Some ''sk'', NEXT_PUBLIC_SERVER_URL = Some ''http://server''\<rparr>"

definition exampleRequest :: request_body where
  "exampleRequest =
     \<lparr>messages = [\<lparr>role = ''human'', content = ''rename x to y''\<rparr>],
      ctx = JUndefined, activeFileContent = JString ''const x=1'', isEditMode = False,
      fileName = JString ''a.ts'', line = JOther ''10'' True, templateType = JString ''reactjs'',
      files = Some [TFile ''a.ts''], projectName = JString ''demo''\<rparr>"

definition exampleWorld :: world where
  "exampleWorld =
     \<lparr>currentUserResult = Resolved (Some ''user1''),
      checkResetResult = Resolved True,
      dbUserResult = Resolved (Resolved \<lparr>ud_tier = Some ''PRO'', ud_generations = Some 3\<rparr>),
      requestJson = Resolved exampleRequest,
      bedrockSendResult = Resolved \<lparr>bodyStream = Some
        ([BedrockEvent (Some ''Hel''), BedrockEvent None, BedrockEvent (Some ''not json''),
          BedrockEvent (Some ''lo'')], EndOfStream)\<rparr>,
      anthropicCreateResult = Resolved
        ([MessageStart, ContentBlockDelta (TextDelta ''Hi''),
          ContentBlockDelta (InputJSONDelta ''{''), ContentBlockDelta (TextDelta '' there''),
          MessageStop], EndOfStream),
      incrementResult = Resolved True\<rparr>"

section \<open>Properties\<close>

subsection \<open>Sorting and rendering one level\<close>

lemma map_the_filter_truthy:
  assumes "\<And>x. x \<in> set xs \<Longrightarrow> truthyEntry (f x) = P x"
    and "\<And>x. x \<in> set xs \<Longrightarrow> P x \<Longrightarrow> the (f x) = g x"
  shows "map the (filter truthyEntry (map f xs)) = map g (filter P xs)"
  using assms by (induction xs) auto

lemma formatFileStructure_Some:
  "formatFileStructure lc igf igd (Some items) prefix =
     join nl (map (renderItem lc igf igd prefix)
       (filter (\<lambda>i. \<not> itemIgnored igf igd i) (sortItems lc items)))"
proof -
  have "map the (filter truthyEntry (map
       (\<lambda>item. case item of
            TFile n \<Rightarrow>
              if \<not> fileIgnored igf n then Some (prefix @ branchGlyph @ n) else None
          | TFolder n ch \<Rightarrow>
              if \<not> folderIgnored igd n
              then Some (prefix @ branchGlyph @ n @ ''/'' @ nl @
                     formatFileStructure lc igf igd ch (prefix @ barGlyph))
              else None)
       (sortItems lc items))) =
     map (renderItem lc igf igd prefix)
       (filter (\<lambda>i. \<not> itemIgnored igf igd i) (sortItems lc items))"
    by (rule map_the_filter_truthy)
       (auto simp: itemIgnored_def renderItem_def branchGlyph_def split: item.splits)
  then show ?thesis by simp
qed

declare formatFileStructure.simps(2) [simp del]

lemma mset_insertBy: "mset (insertBy cmp x xs) = add_mset x (mset xs)"
  by (induction xs) auto

lemma mset_sortBy: "mset (sortBy cmp xs) = mset xs"
  by (induction xs) (auto simp: mset_insertBy)

lemma sorted_insertBy:
  assumes total: "\<And>a b. cmp a b \<le> 0 \<or> cmp b a \<le> 0"
    and trans: "\<And>a b c. cmp a b \<le> 0 \<Longrightarrow> cmp b c \<le> 0 \<Longrightarrow> cmp a c \<le> 0"
    and sorted: "sorted_wrt (\<lambda>a b. cmp a b \<le> 0) xs"
  shows "sorted_wrt (\<lambda>a b. cmp a b \<le> 0) (insertBy cmp x xs)"
  using sorted
proof (induction xs)
  case Nil
  then show ?case by simp
next
  case (Cons y ys)
  show ?case
  proof (cases "cmp x y \<le> 0")
    case True
    then have "\<forall>z\<in>set ys. cmp x z \<le> 0"
      using Cons.prems trans by auto
    with True Cons.prems show ?thesis by simp
  next
    case False
    then have "cmp y x \<le> 0" using total by blast
    with False Cons show ?thesis by (auto simp: set_insertBy)
  qed
qed

lemma sorted_sortBy:
  assumes "\<And>a b. cmp a b \<le> 0 \<or> cmp b a \<le> 0"
    and "\<And>a b c. cmp a b \<le> 0 \<Longrightarrow> cmp b c \<le> 0 \<Longrightarrow> cmp a c \<le> 0"
  shows "sorted_wrt (\<lambda>a b. cmp a b \<le> 0) (sortBy cmp xs)"
proof (induction xs)
  case Nil
  then show ?case by simp
next
  case (Cons x xs)
  have "sorted_wrt (\<lambda>a b. cmp a b \<le> 0) (insertBy cmp x (sortBy cmp xs))"
    using assms(1) assms(2) Cons.IH by (rule sorted_insertBy)
  then show ?case by simp
qed

lemma filter_insertBy_stable:
  assumes trans: "\<And>a b c. cmp a b \<le> 0 \<Longrightarrow> cmp b c \<le> 0 \<Longrightarrow> cmp a c \<le> 0"
  shows "filter (\<lambda>y. cmp k y \<le> 0 \<and> cmp y k \<le> 0) (insertBy cmp x xs) =
         filter (\<lambda>y. cmp k y \<le> 0 \<and> cmp y k \<le> 0) (x # xs)"
proof (induction xs)
  case Nil
  then show ?case by simp
next
  case (Cons y ys)
  show ?case
  proof (cases "cmp x y \<le> 0")
    case True
    then show ?thesis by simp
  next
    case False
    then have "\<not> ((cmp k x \<le> 0 \<and> cmp x k \<le> 0) \<and> (cmp k y \<le> 0 \<and> cmp y k \<le> 0))"
      using trans by blast
    with False Cons show ?thesis by auto
  qed
qed

lemma filter_sortBy_stable:
  assumes "\<And>a b c. cmp a b \<le> 0 \<Longrightarrow> cmp b c \<le> 0 \<Longrightarrow> cmp a c \<le> 0"
  shows "filter (\<lambda>y. cmp k y \<le> 0 \<and> cmp y k \<le> 0) (sortBy cmp xs) =
         filter (\<lambda>y. cmp k y \<le> 0 \<and> cmp y k \<le> 0) xs"
proof (induction xs)
  case Nil
  then show ?case by simp
next
  case (Cons x xs)
  then show ?case
    using filter_insertBy_stable[of cmp k x "sortBy cmp xs", OF assms] by simp
qed

lemma compareItems_total:
  assumes "consistentComparator lc"
  shows "compareItems lc a b \<le> 0 \<or> compareItems lc b a \<le> 0"
proof -
  have "lc x y \<le> 0 \<or> lc y x \<le> 0" for x y
    using assms unfolding consistentComparator_def by (metis not_le order_less_imp_le)
  then show ?thesis by (auto simp: compareItems_def)
qed

lemma compareItems_trans:
  assumes "consistentComparator lc"
    and "compareItems lc a b \<le> 0" and "compareItems lc b c \<le> 0"
  shows "compareItems lc a c \<le> 0"
proof -
  have tr: "lc x y \<le> 0 \<Longrightarrow> lc y z \<le> 0 \<Longrightarrow> lc x z \<le> 0" for x y z
    using assms(1) unfolding consistentComparator_def by blast
  show ?thesis
    using assms(2,3) tr[of "name a" "name b" "name c"]
    by (auto simp: compareItems_def split: if_splits)
qed

lemma compareItems_le_iff:
  "compareItems lc a b \<le> 0 \<longleftrightarrow>
     (isFolder a \<and> \<not> isFolder b) \<or> (isFolder a = isFolder b \<and> lc (name a) (name b) \<le> 0)"
  by (auto simp: compareItems_def)

lemma compareItems_equiv_iff:
  assumes "consistentComparator lc"
  shows "(compareItems lc k i \<le> 0 \<and> compareItems lc i k \<le> 0) \<longleftrightarrow>
         (isFolder i = isFolder k \<and> lc (name k) (name i) = 0)"
proof -
  have "(lc x y \<le> 0 \<and> lc y x \<le> 0) = (lc x y = 0)" for x y
    using assms unfolding consistentComparator_def
    by (metis less_le not_le order_refl)
  then show ?thesis by (auto simp: compareItems_def)
qed

lemma consistent_compareLength: "consistentComparator compareLength"
  by (auto simp: consistentComparator_def compareLength_def)

lemma endsWith_iff: "endsWith s p \<longleftrightarrow> (\<exists>pre. s = pre @ p)"
proof
  assume "endsWith s p"
  then have "s = take (length s - length p) s @ p"
    unfolding endsWith_def by (metis append_take_drop_id)
  then show "\<exists>pre. s = pre @ p" ..
next
  assume "\<exists>pre. s = pre @ p"
  then show "endsWith s p" by (auto simp: endsWith_def)
qed

lemma insertBy_map:
  assumes "\<And>a b. cmp (g a) (g b) = cmp a b"
  shows "insertBy cmp (g x) (map g xs) = map g (insertBy cmp x xs)"
  by (induction xs) (auto simp: assms)

lemma sortBy_map:
  assumes "\<And>a b. cmp (g a) (g b) = cmp a b"
  shows "sortBy cmp (map g xs) = map g (sortBy cmp xs)"
  by (induction xs) (simp_all add: insertBy_map assms)

lemma map_filter_cong_kept:
  assumes "\<And>x. P (g x) = P x" and "\<And>x. P x \<Longrightarrow> f (g x) = f x"
  shows "map f (filter P (map g xs)) = map f (filter P xs)"
  by (induction xs) (auto simp: assms)

text \<open>Replacing the children of ignored folders does not change the output.\<close>

lemma formatFileStructure_children_of_ignored:
  assumes same: "\<And>i. \<not> itemIgnored igf igd i \<Longrightarrow> g i = i"
    and kind: "\<And>i. isFolder (g i) = isFolder i" and nm: "\<And>i. name (g i) = name i"
  shows "formatFileStructure lc igf igd (Some (map g items)) prefix =
         formatFileStructure lc igf igd (Some items) prefix"
proof -
  have cmp: "compareItems lc (g a) (g b) = compareItems lc a b" for a b
    by (simp add: compareItems_def kind nm)
  have ign: "itemIgnored igf igd (g i) = itemIgnored igf igd i" for i
    using kind[of i] nm[of i] by (cases i; cases "g i") (auto simp: itemIgnored_def)
  have "map (renderItem lc igf igd prefix)
          (filter (\<lambda>i. \<not> itemIgnored igf igd i) (map g (sortItems lc items))) =
        map (renderItem lc igf igd prefix)
          (filter (\<lambda>i. \<not> itemIgnored igf igd i) (sortItems lc items))"
    by (rule map_filter_cong_kept) (simp_all add: ign same)
  then show ?thesis
    by (simp add: formatFileStructure_Some sortItems_def sortBy_map[of "compareItems lc" g, OF cmp])
qed

subsection \<open>Streams\<close>

lemma enqueued_append: "enqueued (xs @ ys) = enqueued xs @ enqueued ys"
proof (induction xs)
  case Nil
  then show ?case by simp
next
  case (Cons a xs)
  then show ?case by (cases a) simp_all
qed

lemma enqueued_bedrockChunk:
  "enqueued (bedrockChunk parse chunk) =
     filter (\<lambda>t. t \<noteq> []) (bedrockTextPayloads parse [chunk])"
proof (cases "chunkBytes chunk")
  case None
  then have "enqueued (bedrockChunk parse chunk) = []"
    and "bedrockTextPayloads parse [chunk] = []"
    by (simp_all add: bedrockChunk_def bedrockTextPayloads_def)
  then show ?thesis by simp
next
  case (Some bytes)
  show ?thesis
  proof (cases "parse bytes")
    case None
    with Some have "enqueued (bedrockChunk parse chunk) = []"
      and "bedrockTextPayloads parse [chunk] = []"
      by (simp_all add: bedrockChunk_def bedrockTextPayloads_def)
    then show ?thesis by simp
  next
    case parsed: (Some parsed)
    show ?thesis
    proof (cases "env_delta_text parsed")
      case None
      with Some parsed have "enqueued (bedrockChunk parse chunk) = []"
        and "bedrockTextPayloads parse [chunk] = []"
        by (simp_all add: bedrockChunk_def bedrockTextPayloads_def strVal_def)
      then show ?thesis by simp
    next
      case dt: (Some t)
      with Some parsed have "enqueued (bedrockChunk parse chunk) =
          (if (env_type parsed = Some ''content_block_delta'' \<or>
               env_type parsed = Some ''message_delta'') \<and> t \<noteq> [] then [t] else [])"
        and "bedrockTextPayloads parse [chunk] =
          (if env_type parsed = Some ''content_block_delta'' \<or>
              env_type parsed = Some ''message_delta'' then [t] else [])"
        by (simp_all add: bedrockChunk_def bedrockTextPayloads_def strVal_def)
      then show ?thesis by simp
    qed
  qed
qed

lemma bedrockTextPayloads_Cons:
  "bedrockTextPayloads parse (chunk # chunks) =
     bedrockTextPayloads parse [chunk] @ bedrockTextPayloads parse chunks"
  by (simp add: bedrockTextPayloads_def)

lemma enqueued_bedrock_loop:
  "enqueued (concat (map (bedrockChunk parse) chunks)) =
     filter (\<lambda>t. t \<noteq> []) (bedrockTextPayloads parse chunks)"
proof (induction chunks)
  case Nil
  then show ?case by (simp add: bedrockTextPayloads_def)
next
  case (Cons chunk chunks)
  have "enqueued (concat (map (bedrockChunk parse) (chunk # chunks))) =
        enqueued (bedrockChunk parse chunk) @ enqueued (concat (map (bedrockChunk parse) chunks))"
    by (simp add: enqueued_append)
  then show ?case
    using Cons.IH bedrockTextPayloads_Cons[of parse chunk chunks]
    by (simp add: enqueued_bedrockChunk)
qed

lemma enqueued_anthropicChunk:
  "enqueued (anthropicChunk event) = anthropicTextPayloads [event]"
  by (cases event rule: anthropicChunk.cases) (simp_all add: anthropicTextPayloads_def)

lemma enqueued_anthropic_loop:
  "enqueued (concat (map anthropicChunk events)) = anthropicTextPayloads events"
proof (induction events)
  case Nil
  then show ?case by (simp add: anthropicTextPayloads_def)
next
  case (Cons event events)
  have "anthropicTextPayloads (event # events) =
        anthropicTextPayloads [event] @ anthropicTextPayloads events"
    by (simp add: anthropicTextPayloads_def)
  then show ?case
    using Cons.IH by (simp add: enqueued_append enqueued_anthropicChunk)
qed

lemma enqueued_ending:
  "enqueued (case ending of EndOfStream \<Rightarrow> [Close]
             | StreamFails e \<Rightarrow> [StreamLog msg, ControllerError e]) = []"
  by (cases ending) simp_all

lemma concat_filter_nonempty: "concat (filter (\<lambda>t. t \<noteq> []) xs) = concat xs"
  by (induction xs) auto

subsection \<open>The calls of each stage of the handler\<close>

lemma list_ex_andThen:
  "list_ex P (fst (andThen m f)) =
     (list_ex P (fst m) \<or> (\<exists>a. snd m = Continue a \<and> list_ex P (fst (f a))))"
  by (cases m; cases "snd m") (auto simp: andThen_def split: prod.splits)

lemma filter_andThen:
  "filter P (fst (andThen m f)) =
     filter P (fst m) @ (case snd m of Continue a \<Rightarrow> filter P (fst (f a)) | _ \<Rightarrow> [])"
  by (cases m; cases "snd m") (auto simp: andThen_def split: prod.splits)

lemma authenticate_trace: "fst (authenticate w) = []"
  by (simp add: authenticate_def split: awaited.splits option.splits)

lemma checkReset_trace:
  "filter P (fst (checkReset env w uid)) =
     filter P (Fetch ''POST'' (serverUrl env) ''/api/user/check-reset'' (Some uid) #
       (if checkResetResult w = Resolved False
        then [ConsoleError ''Failed to check usage reset''] else []))"
  by (auto simp: checkReset_def split: awaited.splits)

lemma fetchUserData_trace:
  "fst (fetchUserData env w uid) = [Fetch ''GET'' (serverUrl env) (''/api/user?id='' @ uid) None]"
  by (simp add: fetchUserData_def split: awaited.splits)

lemma quotaGate_trace: "fst (quotaGate tiers userData) = []"
  by (simp add: quotaGate_def split: lookup.splits)

lemma readRequestJson_trace: "fst (readRequestJson w) = []"
  by (simp add: readRequestJson_def split: awaited.splits)

lemma templateContextOf_trace: "fst (templateContextOf imp rq) = []"
  by (simp add: templateContextOf_def split: lookup.splits)

lemma systemMessageOf_trace: "fst (systemMessageOf imp rq) = []"
  by (cases "templateContextOf imp rq"; cases "snd (templateContextOf imp rq)")
     (use templateContextOf_trace[of imp rq] in
       \<open>auto simp: systemMessageOf_def andThen_def split: list.splits\<close>)

lemma incrementGenerations_trace:
  "fst (incrementGenerations env w uid) =
     [Fetch ''POST'' (serverUrl env) ''/api/user/increment-generations'' (Some uid)]"
  by (simp add: incrementGenerations_def split: awaited.splits)

lemma bedrockSend_trace: "fst (bedrockSend w input) = [BedrockSend input]"
  by (simp add: bedrockSend_def split: awaited.splits)

lemma anthropicCreate_trace: "fst (anthropicCreate w params) = [AnthropicCreate params]"
  by (simp add: anthropicCreate_def split: awaited.splits)

lemmas stage_traces = authenticate_trace fetchUserData_trace quotaGate_trace
  readRequestJson_trace systemMessageOf_trace incrementGenerations_trace bedrockSend_trace
  anthropicCreate_trace

lemma list_ex_filter: "list_ex P xs = (filter P xs \<noteq> [])"
  by (induction xs) auto

lemma dispatch_bedrock_calls:
  "list_ex isBedrockSend (fst (dispatch imp m env w uid ts rq sm)) =
     (m_useBedrockClient m \<and> m_bedrockClient m \<noteq> None)"
  by (simp add: dispatch_def list_ex_andThen stage_traces)

lemma dispatch_anthropic_calls:
  "list_ex isAnthropicCreate (fst (dispatch imp m env w uid ts rq sm)) =
     (\<not> (m_useBedrockClient m \<and> m_bedrockClient m \<noteq> None))"
  by (simp add: dispatch_def list_ex_andThen stage_traces)

lemma POST_trace:
  "filter P (fst (POST imp m env w)) =
     filter P (fst (POST_try imp m env w)) @
     (case snd (POST_try imp m env w) of
        Throw e \<Rightarrow> filter P [ConsoleError ''AI generation error:''] | _ \<Rightarrow> [])"
  by (cases "POST_try imp m env w"; cases "snd (POST_try imp m env w)")
     (auto simp: POST_def)

lemma POST_try_bedrock_calls:
  "list_ex isBedrockSend (fst (POST_try imp m env w)) \<Longrightarrow>
     m_useBedrockClient m \<and> m_bedrockClient m \<noteq> None"
  by (auto simp: POST_try_def list_ex_andThen stage_traces dispatch_bedrock_calls
      list_ex_filter[of _ "fst (checkReset _ _ _)"] checkReset_trace)

lemma POST_try_anthropic_calls:
  "list_ex isAnthropicCreate (fst (POST_try imp m env w)) \<Longrightarrow>
     \<not> (m_useBedrockClient m \<and> m_bedrockClient m \<noteq> None)"
  by (auto simp: POST_try_def list_ex_andThen stage_traces dispatch_anthropic_calls
      list_ex_filter[of _ "fst (checkReset _ _ _)"] checkReset_trace)

lemma moduleInit_selects:
  "(m_useBedrockClient (moduleInit env) \<and> m_bedrockClient (moduleInit env) \<noteq> None) =
     useBedrockClient env"
  by (simp add: moduleInit_def bedrockClient_def)

lemma truthy_strVal: "truthy (strVal v) = (\<exists>s. v = Some s \<and> s \<noteq> [])"
  by (cases v) (simp_all add: strVal_def)

lemma POST_try_ignores_increment_status:
  assumes "incrementResult w = Resolved ok"
  shows "POST_try imp m env (w\<lparr>incrementResult := Resolved ok'\<rparr>) = POST_try imp m env w"
  using assms
  by (simp add: POST_try_def dispatch_def authenticate_def checkReset_def fetchUserData_def
      readRequestJson_def incrementGenerations_def bedrockSend_def anthropicCreate_def
      cong: if_cong)

lemma POST_try_after_checkReset:
  assumes "currentUserResult w = Resolved (Some uid)" and "checkResetResult w = Resolved ok"
  shows "POST_try imp m env w =
     andThen (Fetch ''POST'' (serverUrl env) ''/api/user/check-reset'' (Some uid) #
                (if \<not> ok then [ConsoleError ''Failed to check usage reset''] else []),
              Continue ())
       (\<lambda>u. andThen (fetchUserData env w uid) (\<lambda>userData.
             andThen (quotaGate (TIERS imp) userData) (\<lambda>tierSettings.
             andThen (readRequestJson w) (\<lambda>rq.
             andThen (systemMessageOf imp rq) (\<lambda>systemMessage.
               dispatch imp m env w uid tierSettings rq systemMessage)))))"
  using assms by (simp add: POST_try_def authenticate_def checkReset_def andThen_def)

lemma rest_ignores_checkReset:
  "andThen (fetchUserData env (w\<lparr>checkResetResult := x\<rparr>) uid) (\<lambda>userData.
     andThen (quotaGate tiers userData) (\<lambda>tierSettings.
     andThen (readRequestJson (w\<lparr>checkResetResult := x\<rparr>)) (\<lambda>rq.
     andThen (systemMessageOf imp rq) (\<lambda>systemMessage.
       dispatch imp m env (w\<lparr>checkResetResult := x\<rparr>) uid tierSettings rq systemMessage)))) =
   andThen (fetchUserData env w uid) (\<lambda>userData.
     andThen (quotaGate tiers userData) (\<lambda>tierSettings.
     andThen (readRequestJson w) (\<lambda>rq.
     andThen (systemMessageOf imp rq) (\<lambda>systemMessage.
       dispatch imp m env w uid tierSettings rq systemMessage))))"
  by (simp add: dispatch_def fetchUserData_def readRequestJson_def incrementGenerations_def
      bedrockSend_def anthropicCreate_def cong: if_cong)

lemma POST_checkReset_not_ok:
  assumes "currentUserResult w = Resolved (Some uid)" and "checkResetResult w = Resolved False"
  shows "snd (POST imp m env w) = snd (POST imp m env (w\<lparr>checkResetResult := Resolved True\<rparr>)) \<and>
         fst (POST imp m env w) =
           Fetch ''POST'' (serverUrl env) ''/api/user/check-reset'' (Some uid) #
           ConsoleError ''Failed to check usage reset'' #
           tl (fst (POST imp m env (w\<lparr>checkResetResult := Resolved True\<rparr>)))"
proof -
  define rest where "rest =
    andThen (fetchUserData env w uid) (\<lambda>userData.
      andThen (quotaGate (TIERS imp) userData) (\<lambda>tierSettings.
      andThen (readRequestJson w) (\<lambda>rq.
      andThen (systemMessageOf imp rq) (\<lambda>systemMessage.
        dispatch imp m env w uid tierSettings rq systemMessage))))"
  have a: "POST_try imp m env w =
      andThen ([Fetch ''POST'' (serverUrl env) ''/api/user/check-reset'' (Some uid),
                ConsoleError ''Failed to check usage reset''], Continue ()) (\<lambda>u. rest)"
    using POST_try_after_checkReset[OF assms, of imp m env] by (simp add: rest_def)
  have b: "POST_try imp m env (w\<lparr>checkResetResult := Resolved True\<rparr>) =
      andThen ([Fetch ''POST'' (serverUrl env) ''/api/user/check-reset'' (Some uid)],
               Continue ()) (\<lambda>u. rest)"
    using POST_try_after_checkReset[of "w\<lparr>checkResetResult := Resolved True\<rparr>" uid True imp m env]
      assms(1)
    by (simp add: rest_def rest_ignores_checkReset)
  obtain tr r where rest: "rest = (tr, r)" by (cases rest)
  show ?thesis
    by (cases r) (simp_all add: POST_def a b rest andThen_def)
qed

lemma POST_checkReset_unauthenticated:
  assumes "\<And>uid. currentUserResult w \<noteq> Resolved (Some uid)"
  shows "POST imp m env (w\<lparr>checkResetResult := x\<rparr>) = POST imp m env w"
proof (cases "currentUserResult w")
  case (Rejected e)
  then show ?thesis by (simp add: POST_def POST_try_def authenticate_def andThen_def)
next
  case (Resolved u)
  with assms have "u = None" by (cases u) auto
  with Resolved show ?thesis by (simp add: POST_def POST_try_def authenticate_def andThen_def)
qed

lemma dispatch_increments:
  "length (filter isIncrement (fst (dispatch imp m env w uid ts rq sm))) \<le> Suc 0"
  by (simp add: dispatch_def filter_andThen stage_traces split: step.splits)

lemma POST_try_increments:
  "length (filter isIncrement (fst (POST_try imp m env w))) \<le> 1"
  by (simp add: POST_try_def filter_andThen stage_traces checkReset_trace dispatch_increments
      split: step.splits)

lemma andThen_snd_cases:
  "snd (andThen m f) =
     (case snd m of Throw e \<Rightarrow> Throw e | Return r \<Rightarrow> Return r | Continue a \<Rightarrow> snd (f a))"
  by (cases m; cases "snd m") (auto simp: andThen_def split: prod.splits)

lemma authenticate_result:
  "snd (authenticate w) = Return r \<Longrightarrow> body r = Text ''Unauthorized''"
  by (auto simp: authenticate_def split: awaited.splits option.splits)

lemma checkReset_result: "snd (checkReset env w uid) \<noteq> Return r"
  by (auto simp: checkReset_def split: awaited.splits)

lemma fetchUserData_result: "snd (fetchUserData env w uid) \<noteq> Return r"
  by (auto simp: fetchUserData_def split: awaited.splits)

lemma quotaGate_result:
  "snd (quotaGate tiers userData) = Return r \<Longrightarrow> \<exists>t. body r = Text t"
  by (auto simp: quotaGate_def split: lookup.splits if_splits)

lemma readRequestJson_result: "snd (readRequestJson w) \<noteq> Return r"
  by (auto simp: readRequestJson_def split: awaited.splits)

lemma templateContextOf_result: "snd (templateContextOf imp rq) \<noteq> Return r"
  by (auto simp: templateContextOf_def split: lookup.splits)

lemma systemMessageOf_result: "snd (systemMessageOf imp rq) \<noteq> Return r"
  by (auto simp: systemMessageOf_def andThen_snd_cases templateContextOf_result
      split: step.splits list.splits)

lemma incrementGenerations_result: "snd (incrementGenerations env w uid) \<noteq> Return r"
  by (auto simp: incrementGenerations_def split: awaited.splits)

lemma bedrockSend_result:
  "snd (bedrockSend w input) =
     (case bedrockSendResult w of Rejected e \<Rightarrow> Throw e | Resolved r \<Rightarrow> Continue r)"
  by (auto simp: bedrockSend_def split: awaited.splits)

lemma anthropicCreate_result:
  "snd (anthropicCreate w params) =
     (case anthropicCreateResult w of Rejected e \<Rightarrow> Throw e | Resolved s \<Rightarrow> Continue s)"
  by (auto simp: anthropicCreate_def split: awaited.splits)

lemma dispatch_result:
  assumes "snd (dispatch imp m env w uid ts rq sm) = Continue r"
  shows "if m_useBedrockClient m \<and> m_bedrockClient m \<noteq> None
         then \<exists>response. bedrockSendResult w = Resolved response \<and>
                body r = Stream (bedrockStart (JSON_parse imp) response)
         else \<exists>stream. anthropicCreateResult w = Resolved stream \<and>
                body r = Stream (anthropicStart stream)"
  using assms
  by (auto simp: dispatch_def andThen_snd_cases bedrockSend_result anthropicCreate_result
      split: step.splits awaited.splits if_splits)

lemma dispatch_no_return: "snd (dispatch imp m env w uid ts rq sm) \<noteq> Return r"
  by (auto simp: dispatch_def andThen_snd_cases bedrockSend_result anthropicCreate_result
      incrementGenerations_result split: step.splits awaited.splits if_splits)

lemma POST_try_Continue:
  assumes "snd (POST_try imp m env w) = Continue r"
  shows "\<exists>uid ts rq sm. snd (dispatch imp m env w uid ts rq sm) = Continue r"
  using assms
  by (auto simp: POST_try_def andThen_snd_cases split: step.splits)

lemma POST_try_Return:
  assumes "snd (POST_try imp m env w) = Return r"
  shows "\<exists>t. body r = Text t"
  using assms
  by (auto simp: POST_try_def andThen_snd_cases checkReset_result fetchUserData_result
      readRequestJson_result systemMessageOf_result dispatch_no_return
      dest: authenticate_result quotaGate_result split: step.splits)

lemma POST_stream_body:
  assumes "body (snd (POST imp m env w)) = Stream acts"
  shows "if m_useBedrockClient m \<and> m_bedrockClient m \<noteq> None
         then \<exists>response. bedrockSendResult w = Resolved response \<and>
                acts = bedrockStart (JSON_parse imp) response
         else \<exists>stream. anthropicCreateResult w = Resolved stream \<and>
                acts = anthropicStart stream"
proof (cases "snd (POST_try imp m env w)")
  case (Throw e)
  then have "\<exists>t. body (snd (POST imp m env w)) = Text t"
    by (cases "POST_try imp m env w") (simp add: POST_def)
  with assms show ?thesis by auto
next
  case (Return r)
  then have "snd (POST imp m env w) = r"
    by (cases "POST_try imp m env w") (simp add: POST_def)
  with POST_try_Return[OF Return] assms show ?thesis by auto
next
  case (Continue r)
  then have r: "snd (POST imp m env w) = r"
    by (cases "POST_try imp m env w") (simp add: POST_def)
  from POST_try_Continue[OF Continue] obtain uid ts rq sm
    where "snd (dispatch imp m env w uid ts rq sm) = Continue r" by blast
  from dispatch_result[OF this] r assms show ?thesis by (auto split: if_splits)
qed

lemmas example_defs = exampleImports_def exampleEnv_def exampleRequest_def exampleWorld_def
  exampleParse_def exampleTiers_def exampleTemplates_def exampleStringify_def

lemmas handler_defs = POST_def POST_try_def andThen_def authenticate_def checkReset_def
  fetchUserData_def quotaGate_def resolveTier_def tierName_def generationsAtLeast_def
  readRequestJson_def dispatch_def incrementGenerations_def bedrockSend_def
  anthropicCreate_def moduleInit_def useBedrockClient_def bedrockClient_def strVal_def
  serverUrl_def systemMessageOf_def templateContextOf_def

subsection \<open>The quota gate\<close>



text \<open>With a tier name such as \<open>constructor\<close> the resolved value is inherited and has no
  limit: the comparison with \<open>undefined\<close> is false and the request passes the gate,
  whatever its generation count.\<close>

lemma inherited_tier_has_no_limit:
  "status (snd (POST exampleImports (moduleInit exampleEnv) exampleEnv
     (exampleWorld\<lparr>dbUserResult :=
        Resolved (Resolved \<lparr>ud_tier = Some ''constructor'', ud_generations = Some 10\<rparr>)\<rparr>))) =
     200 \<and>
   list_ex isBedrockSend (fst (POST exampleImports (moduleInit exampleEnv) exampleEnv
     (exampleWorld\<lparr>dbUserResult :=
        Resolved (Resolved \<lparr>ud_tier = Some ''constructor'', ud_generations = Some 10\<rparr>)\<rparr>)))"
  by (simp add: example_defs handler_defs)

subsection \<open>The stream normalisers\<close>

text \<open>
  C2. On both paths the fragments enqueued on the response stream are, one fragment per
  payload and in arrival order, the text payloads of the qualifying chunks; every other
  chunk contributes nothing. On the Bedrock path an empty text is not enqueued, which
  leaves the concatenation unchanged. This holds whether the backend stream ends or
  fails after the chunks.
\<close>

theorem stream_text_in_arrival_order:
  "enqueued (bedrockStart parse \<lparr>bodyStream = Some (chunks, ending)\<rparr>) =
     filter (\<lambda>t. t \<noteq> []) (bedrockTextPayloads parse chunks) \<and>
   concat (enqueued (bedrockStart parse \<lparr>bodyStream = Some (chunks, ending)\<rparr>)) =
     concat (bedrockTextPayloads parse chunks) \<and>
   enqueued (anthropicStart (events, ending')) = anthropicTextPayloads events \<and>
   (body (snd (POST imp m env w)) = Stream acts \<longrightarrow>
      (if m_useBedrockClient m \<and> m_bedrockClient m \<noteq> None
       then \<exists>response. bedrockSendResult w = Resolved response \<and>
              concat (enqueued acts) =
                (case bodyStream response of
                   None \<Rightarrow> []
                 | Some (cs, e) \<Rightarrow> concat (bedrockTextPayloads (JSON_parse imp) cs))
       else \<exists>es e. anthropicCreateResult w = Resolved (es, e) \<and>
              concat (enqueued acts) = concat (anthropicTextPayloads es)))"
proof -
  have b: "enqueued (bedrockStart p \<lparr>bodyStream = Some (cs, e)\<rparr>) =
     filter (\<lambda>t. t \<noteq> []) (bedrockTextPayloads p cs)" for p cs e
    by (simp add: bedrockStart_def enqueued_append enqueued_bedrock_loop enqueued_ending)
  have a: "enqueued (anthropicStart (es, e)) = anthropicTextPayloads es" for es e
    by (simp add: anthropicStart_def enqueued_append enqueued_anthropic_loop enqueued_ending)
  have bc: "concat (enqueued (bedrockStart p response)) =
      (case bodyStream response of
         None \<Rightarrow> []
       | Some (cs, e) \<Rightarrow> concat (bedrockTextPayloads p cs))" for p response
  proof (cases "bodyStream response")
    case None
    then show ?thesis by (simp add: bedrockStart_def)
  next
    case (Some str)
    obtain cs e where str: "str = (cs, e)" by (cases str)
    have resp: "response = \<lparr>bodyStream = Some (cs, e)\<rparr>"
      using Some str by (cases response) simp
    show ?thesis
      unfolding resp using b[of p cs e] by (simp add: concat_filter_nonempty)
  qed
  have handler: "if m_useBedrockClient m \<and> m_bedrockClient m \<noteq> None
       then \<exists>response. bedrockSendResult w = Resolved response \<and>
              concat (enqueued acts) =
                (case bodyStream response of
                   None \<Rightarrow> []
                 | Some (cs, e) \<Rightarrow> concat (bedrockTextPayloads (JSON_parse imp) cs))
       else \<exists>es e. anthropicCreateResult w = Resolved (es, e) \<and>
              concat (enqueued acts) = concat (anthropicTextPayloads es)"
    if str: "body (snd (POST imp m env w)) = Stream acts"
  proof (cases "m_useBedrockClient m \<and> m_bedrockClient m \<noteq> None")
    case True
    with POST_stream_body[OF str] obtain response
      where "bedrockSendResult w = Resolved response"
        and "acts = bedrockStart (JSON_parse imp) response"
      by auto
    with True bc[of "JSON_parse imp" response] show ?thesis by auto
  next
    case False
    with POST_stream_body[OF str] obtain stream
      where r: "anthropicCreateResult w = Resolved stream" and acts: "acts = anthropicStart stream"
      by auto
    obtain es e where "stream = (es, e)" by (cases stream)
    with False r acts a[of es e] show ?thesis by auto
  qed
  have c: "concat (enqueued (bedrockStart parse \<lparr>bodyStream = Some (chunks, ending)\<rparr>)) =
     concat (bedrockTextPayloads parse chunks)"
    using b[of parse chunks ending] by (simp add: concat_filter_nonempty)
  from b[of parse chunks ending] c a[of events ending'] handler show ?thesis
    by blast
qed

theorem stream_text_in_arrival_order_witness:
  "enqueued (bedrockStart exampleParse \<lparr>bodyStream = Some
      ([BedrockEvent (Some ''Hel''), BedrockEvent None, BedrockEvent (Some ''not json''),
        BedrockEvent (Some ''lo'')], EndOfStream)\<rparr>) = [''Hel'', ''lo''] \<and>
   enqueued (anthropicStart
      ([MessageStart, ContentBlockDelta (TextDelta ''Hi''),
        ContentBlockDelta (InputJSONDelta ''{''), ContentBlockDelta (TextDelta '' there''),
        MessageStop], StreamFails NonError)) = [''Hi'', '' there''] \<and>
   body (snd (POST exampleImports (moduleInit exampleEnv) exampleEnv exampleWorld)) =
     Stream [Enqueue ''Hel'', StreamLog ''Error parsing Bedrock chunk:'', Enqueue ''lo'', Close] \<and>
   concat (enqueued
     [Enqueue ''Hel'', StreamLog ''Error parsing Bedrock chunk:'', Enqueue ''lo'', Close]) =
     ''Hello''"
proof -
  have str: "body (snd (POST exampleImports (moduleInit exampleEnv) exampleEnv exampleWorld)) =
     Stream [Enqueue ''Hel'', StreamLog ''Error parsing Bedrock chunk:'', Enqueue ''lo'', Close]"
    by (simp add: example_defs handler_defs bedrockStart_def
        bedrockChunk_def)
  from stream_text_in_arrival_order [of exampleParse
      "[BedrockEvent (Some ''Hel''), BedrockEvent None, BedrockEvent (Some ''not json''),
        BedrockEvent (Some ''lo'')]" EndOfStream
      "[MessageStart, ContentBlockDelta (TextDelta ''Hi''),
        ContentBlockDelta (InputJSONDelta ''{''), ContentBlockDelta (TextDelta '' there''),
        MessageStop]" "StreamFails NonError"
      exampleImports "moduleInit exampleEnv" exampleEnv exampleWorld
      "[Enqueue ''Hel'', StreamLog ''Error parsing Bedrock chunk:'', Enqueue ''lo'', Close]"] str
  show ?thesis
    by (simp add: bedrockTextPayloads_def anthropicTextPayloads_def exampleParse_def)
qed

text \<open>
  C5. A Bedrock chunk whose bytes do not parse only adds a log entry: the actions of the
  chunks before and after it are unchanged, so every later text delta is still
  enqueued, and the stream is closed when the backend stream ends.
\<close>

theorem malformed_chunk_skipped:
  assumes "chunkBytes c = Some bytes" and "parse bytes = None"
  shows "bedrockStart parse \<lparr>bodyStream = Some (before @ [c] @ after, EndOfStream)\<rparr> =
           concat (map (bedrockChunk parse) before) @
           [StreamLog ''Error parsing Bedrock chunk:''] @
           concat (map (bedrockChunk parse) after) @ [Close] \<and>
         enqueued (bedrockStart parse \<lparr>bodyStream = Some (before @ [c] @ after, EndOfStream)\<rparr>) =
           enqueued (bedrockStart parse \<lparr>bodyStream = Some (before @ after, EndOfStream)\<rparr>)"
proof -
  have "bedrockChunk parse c = [StreamLog ''Error parsing Bedrock chunk:'']"
    using assms by (simp add: bedrockChunk_def)
  then show ?thesis
    by (simp add: bedrockStart_def enqueued_append)
qed

theorem malformed_chunk_skipped_witness:
  "chunkBytes (BedrockEvent (Some ''not json'')) = Some ''not json'' \<and>
   exampleParse ''not json'' = None \<and>
   bedrockStart exampleParse \<lparr>bodyStream = Some
      ([BedrockEvent (Some ''Hel'')] @ [BedrockEvent (Some ''not json'')] @
       [BedrockEvent (Some ''lo'')], EndOfStream)\<rparr> =
     [Enqueue ''Hel'', StreamLog ''Error parsing Bedrock chunk:'', Enqueue ''lo'', Close]"
proof -
  have h1: "chunkBytes (BedrockEvent (Some ''not json'')) = Some ''not json''"
    and h2: "exampleParse ''not json'' = None"
    by (simp_all add: exampleParse_def)
  from malformed_chunk_skipped [of "BedrockEvent (Some ''not json'')" "''not json''"
    exampleParse "[BedrockEvent (Some ''Hel'')]" "[BedrockEvent (Some ''lo'')]", OF h1 h2] h1 h2
  show ?thesis by (simp add: bedrockChunk_def exampleParse_def strVal_def)
qed

subsection \<open>Collaborator failures\<close>

text \<open>
  C3, as amended. A check-reset call that answers with a non-OK status is logged and
  changes nothing else: the response is the one of a successful check, and the calls are
  the same with the log entry added. An increment call that answers with a non-OK
  status is ignored, and not logged: calls and response are those of a successful
  increment. No request makes more than one increment call. Calls that throw are not
  covered.
\<close>

theorem collaborator_error_status_not_fatal:
  "(checkResetResult w = Resolved False \<longrightarrow>
      snd (POST imp m env w) = snd (POST imp m env (w\<lparr>checkResetResult := Resolved True\<rparr>)) \<and>
      (\<forall>uid. currentUserResult w = Resolved (Some uid) \<longrightarrow>
         fst (POST imp m env w) =
           Fetch ''POST'' (serverUrl env) ''/api/user/check-reset'' (Some uid) #
           ConsoleError ''Failed to check usage reset'' #
           tl (fst (POST imp m env (w\<lparr>checkResetResult := Resolved True\<rparr>))))) \<and>
   (incrementResult w = Resolved False \<longrightarrow>
      POST imp m env w = POST imp m env (w\<lparr>incrementResult := Resolved True\<rparr>)) \<and>
   length (filter isIncrement (fst (POST imp m env w))) \<le> 1"
proof -
  have reset: "snd (POST imp m env w) =
        snd (POST imp m env (w\<lparr>checkResetResult := Resolved True\<rparr>))"
    if "checkResetResult w = Resolved False"
  proof (cases "\<exists>uid. currentUserResult w = Resolved (Some uid)")
    case True
    then show ?thesis using POST_checkReset_not_ok that by blast
  next
    case False
    then show ?thesis using POST_checkReset_unauthenticated[of w imp m env] by simp
  qed
  have logged: "fst (POST imp m env w) =
           Fetch ''POST'' (serverUrl env) ''/api/user/check-reset'' (Some uid) #
           ConsoleError ''Failed to check usage reset'' #
           tl (fst (POST imp m env (w\<lparr>checkResetResult := Resolved True\<rparr>)))"
    if "checkResetResult w = Resolved False" and "currentUserResult w = Resolved (Some uid)"
    for uid
    using POST_checkReset_not_ok that by blast
  have incr: "POST imp m env w = POST imp m env (w\<lparr>incrementResult := Resolved True\<rparr>)"
    if "incrementResult w = Resolved False"
    using POST_try_ignores_increment_status[OF that, of imp m env True] by (simp add: POST_def)
  have once: "length (filter isIncrement (fst (POST imp m env w))) \<le> 1"
    using POST_try_increments[of imp m env w] by (simp add: POST_trace split: step.splits)
  from reset logged incr once show ?thesis by blast
qed

theorem collaborator_error_status_not_fatal_witness:
  "checkResetResult (exampleWorld\<lparr>checkResetResult := Resolved False,
                                  incrementResult := Resolved False\<rparr>) = Resolved False \<and>
   incrementResult (exampleWorld\<lparr>checkResetResult := Resolved False,
                                 incrementResult := Resolved False\<rparr>) = Resolved False \<and>
   snd (POST exampleImports (moduleInit exampleEnv) exampleEnv
          (exampleWorld\<lparr>checkResetResult := Resolved False,
                         incrementResult := Resolved False\<rparr>)) =
   snd (POST exampleImports (moduleInit exampleEnv) exampleEnv
          (exampleWorld\<lparr>checkResetResult := Resolved False,
                         incrementResult := Resolved False,
                         checkResetResult := Resolved True\<rparr>)) \<and>
   length (filter isIncrement
     (fst (POST exampleImports (moduleInit exampleEnv) exampleEnv
             (exampleWorld\<lparr>checkResetResult := Resolved False,
                            incrementResult := Resolved False\<rparr>)))) \<le> 1"
proof -
  let ?w = "exampleWorld\<lparr>checkResetResult := Resolved False, incrementResult := Resolved False\<rparr>"
  have h1: "checkResetResult ?w = Resolved False" and h2: "incrementResult ?w = Resolved False"
    by simp_all
  from collaborator_error_status_not_fatal [of ?w exampleImports "moduleInit exampleEnv"
    exampleEnv] h1 h2
  show ?thesis by blast
qed

text \<open>
  C3 as stated fails. With an increment call that answers with a non-OK status, nothing
  is logged. With an increment call or a check-reset call that throws, the response is
  a 500 instead of the 200 stream that the same request gets when the call succeeds.
\<close>

theorem collaborator_failure_counterexample:
  "\<not> list_ex isConsoleError
       (fst (POST exampleImports (moduleInit exampleEnv) exampleEnv
               (exampleWorld\<lparr>incrementResult := Resolved False\<rparr>))) \<and>
   status (snd (POST exampleImports (moduleInit exampleEnv) exampleEnv
                  (exampleWorld\<lparr>incrementResult := Rejected (Error ''fetch failed'')\<rparr>))) = 500 \<and>
   status (snd (POST exampleImports (moduleInit exampleEnv) exampleEnv
                  (exampleWorld\<lparr>checkResetResult := Rejected (Error ''fetch failed'')\<rparr>))) = 500 \<and>
   status (snd (POST exampleImports (moduleInit exampleEnv) exampleEnv exampleWorld)) = 200"
  by (simp add: example_defs handler_defs)

subsection \<open>Backend selection\<close>

text \<open>
  C4. The module state computed at load time selects Bedrock exactly when the four
  variables (access key, secret key, region, model ARN) are all set to a non-empty
  string. Whatever the environment is at the time of a request, a request handled with
  that module state calls Bedrock only if the load-time environment had the complete
  quadruple, and Anthropic only if it had not.
\<close>

theorem backend_selected_at_load:
  "((m_useBedrockClient (moduleInit env0) \<and> m_bedrockClient (moduleInit env0) \<noteq> None) =
      ((\<exists>k. AWS_ACCESS_KEY_ID env0 = Some k \<and> k \<noteq> []) \<and>
       (\<exists>s. AWS_SECRET_ACCESS_KEY env0 = Some s \<and> s \<noteq> []) \<and>
       (\<exists>r. AWS_REGION env0 = Some r \<and> r \<noteq> []) \<and>
       (\<exists>a. AWS_ARN env0 = Some a \<and> a \<noteq> []))) \<and>
   (list_ex isBedrockSend (fst (POST imp (moduleInit env0) env w)) \<longrightarrow>
      useBedrockClient env0) \<and>
   (list_ex isAnthropicCreate (fst (POST imp (moduleInit env0) env w)) \<longrightarrow>
      \<not> useBedrockClient env0) \<and>
   list_ex isBedrockSend (fst (dispatch imp (moduleInit env0) env w uid ts rq sm)) =
     useBedrockClient env0 \<and>
   list_ex isAnthropicCreate (fst (dispatch imp (moduleInit env0) env w uid ts rq sm)) =
     (\<not> useBedrockClient env0)"
proof -
  have d: "list_ex isBedrockSend (fst (dispatch imp (moduleInit env0) env w uid ts rq sm)) =
     useBedrockClient env0"
    "list_ex isAnthropicCreate (fst (dispatch imp (moduleInit env0) env w uid ts rq sm)) =
     (\<not> useBedrockClient env0)"
    using moduleInit_selects[of env0]
    by (auto simp: dispatch_bedrock_calls dispatch_anthropic_calls)
  have sel: "(m_useBedrockClient (moduleInit env0) \<and> m_bedrockClient (moduleInit env0) \<noteq> None) =
      ((\<exists>k. AWS_ACCESS_KEY_ID env0 = Some k \<and> k \<noteq> []) \<and>
       (\<exists>s. AWS_SECRET_ACCESS_KEY env0 = Some s \<and> s \<noteq> []) \<and>
       (\<exists>r. AWS_REGION env0 = Some r \<and> r \<noteq> []) \<and>
       (\<exists>a. AWS_ARN env0 = Some a \<and> a \<noteq> []))"
    unfolding moduleInit_selects by (simp add: useBedrockClient_def truthy_strVal)
  have b: "useBedrockClient env0"
    if "list_ex isBedrockSend (fst (POST imp (moduleInit env0) env w))"
  proof -
    from that have "list_ex isBedrockSend (fst (POST_try imp (moduleInit env0) env w))"
      by (simp add: list_ex_filter POST_trace split: step.splits)
    then show ?thesis
      using POST_try_bedrock_calls moduleInit_selects by blast
  qed
  have a: "\<not> useBedrockClient env0"
    if "list_ex isAnthropicCreate (fst (POST imp (moduleInit env0) env w))"
  proof -
    from that have "list_ex isAnthropicCreate (fst (POST_try imp (moduleInit env0) env w))"
      by (simp add: list_ex_filter POST_trace split: step.splits)
    then show ?thesis
      using POST_try_anthropic_calls moduleInit_selects by blast
  qed
  from sel a b d show ?thesis by blast
qed

theorem backend_selected_at_load_witness:
  "useBedrockClient exampleEnv \<and>
   list_ex isBedrockSend
     (fst (POST exampleImports (moduleInit exampleEnv) (exampleEnv\<lparr>AWS_ARN := None\<rparr>)
             exampleWorld)) \<and>
   \<not> list_ex isAnthropicCreate
     (fst (POST exampleImports (moduleInit exampleEnv) (exampleEnv\<lparr>AWS_ARN := None\<rparr>)
             exampleWorld)) \<and>
   \<not> useBedrockClient (exampleEnv\<lparr>AWS_ARN := Some []\<rparr>) \<and>
   list_ex isAnthropicCreate
     (fst (POST exampleImports (moduleInit (exampleEnv\<lparr>AWS_ARN := Some []\<rparr>)) exampleEnv
             exampleWorld)) \<and>
   \<not> list_ex isBedrockSend
     (fst (POST exampleImports (moduleInit (exampleEnv\<lparr>AWS_ARN := Some []\<rparr>)) exampleEnv
             exampleWorld))"
proof -
  have bedrock: "list_ex isBedrockSend
     (fst (POST exampleImports (moduleInit exampleEnv) (exampleEnv\<lparr>AWS_ARN := None\<rparr>)
             exampleWorld))"
    by (simp add: example_defs handler_defs)
  have anthropic: "list_ex isAnthropicCreate
     (fst (POST exampleImports (moduleInit (exampleEnv\<lparr>AWS_ARN := Some []\<rparr>)) exampleEnv
             exampleWorld))"
    by (simp add: example_defs handler_defs)
  from backend_selected_at_load [of exampleEnv exampleImports "exampleEnv\<lparr>AWS_ARN := None\<rparr>"
      exampleWorld]
    backend_selected_at_load [of "exampleEnv\<lparr>AWS_ARN := Some []\<rparr>" exampleImports exampleEnv
      exampleWorld]
    bedrock anthropic
  show ?thesis by blast
qed

subsection \<open>Prompt assembly\<close>











subsection \<open>The file tree formatter\<close>

text \<open>
  C6, as amended. At every nesting level (for every list of items and every prefix) the
  output is the join of the renderings of exactly the items that are not ignored, in
  sorted order, and nothing else is dropped. A file is ignored exactly when its name
  equals a pattern or ends with the pattern from which the first \<open>*\<close> has been removed,
  wherever in the pattern it stands. A folder is ignored exactly when its name is in
  the list of ignored folders; its descendants are then omitted too: the output does
  not depend on its children.
\<close>

theorem formatFileStructure_filtering:
  "formatFileStructure lc igf igd (Some items) prefix =
     join nl (map (renderItem lc igf igd prefix)
       (filter (\<lambda>i. \<not> itemIgnored igf igd i) (sortItems lc items))) \<and>
   mset (filter (\<lambda>i. \<not> itemIgnored igf igd i) (sortItems lc items)) =
     mset (filter (\<lambda>i. \<not> itemIgnored igf igd i) items) \<and>
   (itemIgnored igf igd (TFile n) \<longleftrightarrow>
      (\<exists>pattern \<in> set igf. n = pattern \<or> (\<exists>pre. n = pre @ remove1 (CHR ''*'') pattern))) \<and>
   (itemIgnored igf igd (TFolder n ch) \<longleftrightarrow> n \<in> set igd) \<and>
   (folderIgnored igd n \<longrightarrow>
      formatFileStructure lc igf igd (Some (before @ [TFolder n ch] @ after)) prefix =
      formatFileStructure lc igf igd (Some (before @ [TFolder n ch'] @ after)) prefix)"
proof -
  have out: "formatFileStructure lc igf igd (Some items) prefix =
     join nl (map (renderItem lc igf igd prefix)
       (filter (\<lambda>i. \<not> itemIgnored igf igd i) (sortItems lc items)))"
    by (rule formatFileStructure_Some)
  have perm: "mset (filter (\<lambda>i. \<not> itemIgnored igf igd i) (sortItems lc items)) =
     mset (filter (\<lambda>i. \<not> itemIgnored igf igd i) items)"
    by (simp add: sortItems_def mset_sortBy)
  have files: "itemIgnored igf igd (TFile n) \<longleftrightarrow>
      (\<exists>pattern \<in> set igf. n = pattern \<or> (\<exists>pre. n = pre @ remove1 (CHR ''*'') pattern))"
    by (auto simp: itemIgnored_def fileIgnored_def list_ex_iff endsWith_iff replaceStar_def)
  have folders: "itemIgnored igf igd (TFolder n ch) \<longleftrightarrow> n \<in> set igd"
    by (auto simp: itemIgnored_def folderIgnored_def list_ex_iff)
  have desc: "formatFileStructure lc igf igd (Some (before @ [TFolder n ch] @ after)) prefix =
      formatFileStructure lc igf igd (Some (before @ [TFolder n ch'] @ after)) prefix"
    if ign: "folderIgnored igd n"
  proof -
    let ?g = "\<lambda>i. if itemIgnored igf igd i then (case i of TFile m \<Rightarrow> TFile m | TFolder m c \<Rightarrow> TFolder m None) else i"
    have g: "formatFileStructure lc igf igd (Some (map ?g xs)) prefix =
             formatFileStructure lc igf igd (Some xs) prefix" for xs
      by (rule formatFileStructure_children_of_ignored) (auto split: item.splits)
    have "map ?g (before @ [TFolder n ch] @ after) = map ?g (before @ [TFolder n ch'] @ after)"
      using ign by (simp add: itemIgnored_def)
    then show ?thesis
      using g[of "before @ [TFolder n ch] @ after"] g[of "before @ [TFolder n ch'] @ after"]
      by simp
  qed
  from out perm files folders desc show ?thesis by blast
qed

theorem formatFileStructure_filtering_witness:
  "folderIgnored [''node_modules''] ''node_modules'' \<and>
   formatFileStructure compareLength [''*.log''] [''node_modules'']
     (Some ([TFile ''a.log''] @ [TFolder ''node_modules'' (Some [TFile ''x''])] @ [TFile ''b''])) [] =
   formatFileStructure compareLength [''*.log''] [''node_modules'']
     (Some ([TFile ''a.log''] @ [TFolder ''node_modules'' None] @ [TFile ''b''])) [] \<and>
   formatFileStructure compareLength [''*.log''] [''node_modules'']
     (Some ([TFile ''a.log''] @ [TFolder ''node_modules'' None] @ [TFile ''b''])) [] =
   branchGlyph @ ''b''"
proof -
  have ign: "folderIgnored [''node_modules''] ''node_modules''"
    by (simp add: folderIgnored_def)
  note all = formatFileStructure_filtering [of compareLength "[''*.log'']" "[''node_modules'']"
     "[TFile ''a.log''] @ [TFolder ''node_modules'' None] @ [TFile ''b'']" "[]"
     "''node_modules''" "Some [TFile ''x'']" "[TFile ''a.log'']" "[TFile ''b'']" None]
  from all ign have same: "formatFileStructure compareLength [''*.log''] [''node_modules'']
     (Some ([TFile ''a.log''] @ [TFolder ''node_modules'' (Some [TFile ''x''])] @ [TFile ''b''])) [] =
   formatFileStructure compareLength [''*.log''] [''node_modules'']
     (Some ([TFile ''a.log''] @ [TFolder ''node_modules'' None] @ [TFile ''b''])) []"
    by blast
  from all have "formatFileStructure compareLength [''*.log''] [''node_modules'']
     (Some ([TFile ''a.log''] @ [TFolder ''node_modules'' None] @ [TFile ''b''])) [] =
     join nl (map (renderItem compareLength [''*.log''] [''node_modules''] [])
       (filter (\<lambda>i. \<not> itemIgnored [''*.log''] [''node_modules''] i)
         (sortItems compareLength
           ([TFile ''a.log''] @ [TFolder ''node_modules'' None] @ [TFile ''b'']))))"
    by blast
  then have val: "formatFileStructure compareLength [''*.log''] [''node_modules'']
     (Some ([TFile ''a.log''] @ [TFolder ''node_modules'' None] @ [TFile ''b''])) [] =
     branchGlyph @ ''b''"
    by (simp add: sortItems_def compareItems_def compareLength_def itemIgnored_def
      fileIgnored_def folderIgnored_def endsWith_def replaceStar_def renderItem_def)
  from ign same val show ?thesis by blast
qed

text \<open>
  C6 as stated fails for a pattern whose wildcard is not trailing: with the pattern
  \<open>*.log\<close> the file \<open>a.log\<close> neither equals the pattern nor ends with it (it has no
  trailing wildcard to strip), and yet no line is emitted for it.
\<close>

theorem trailing_wildcard_counterexample:
  "\<not> fileIgnoredAsStated [''*.log''] ''a.log'' \<and>
   formatFileStructure compareLength [''*.log''] [] (Some [TFile ''a.log'']) [] = []"
  by (simp add: fileIgnoredAsStated_def stripTrailingWildcard_def endsWith_def
      formatFileStructure_Some itemIgnored_def fileIgnored_def replaceStar_def sortItems_def)

text \<open>
  C7. At every nesting level (for every list of items and every prefix, hence for the
  children of every folder), the entries of the output are the renderings of the
  retained items in the order of the stable sort: every retained folder comes before
  every retained file, items of one kind are in ascending \<open>localeCompare\<close> order of
  their names, and items that compare equal keep the order of the input. The
  comparator is assumed consistent.
\<close>

theorem formatFileStructure_ordering:
  assumes "consistentComparator lc"
  shows "let kept = filter (\<lambda>i. \<not> itemIgnored igf igd i) (sortItems lc items) in
     formatFileStructure lc igf igd (Some items) prefix =
       join nl (map (renderItem lc igf igd prefix) kept) \<and>
     mset kept = mset (filter (\<lambda>i. \<not> itemIgnored igf igd i) items) \<and>
     sorted_wrt (\<lambda>a b. (isFolder a \<and> \<not> isFolder b) \<or>
                       (isFolder a = isFolder b \<and> lc (name a) (name b) \<le> 0)) kept \<and>
     (\<forall>k. filter (\<lambda>i. isFolder i = isFolder k \<and> lc (name k) (name i) = 0) kept =
          filter (\<lambda>i. isFolder i = isFolder k \<and> lc (name k) (name i) = 0)
            (filter (\<lambda>i. \<not> itemIgnored igf igd i) items))"
proof -
  let ?keep = "\<lambda>i. \<not> itemIgnored igf igd i"
  let ?le = "\<lambda>a b. compareItems lc a b \<le> 0"
  have srt: "sorted_wrt ?le (sortItems lc items)"
    unfolding sortItems_def
    by (rule sorted_sortBy) (use assms compareItems_total compareItems_trans in blast)+
  have "sorted_wrt ?le (filter ?keep (sortItems lc items))"
    using srt by (rule sorted_wrt_filter)
  then have ordered: "sorted_wrt (\<lambda>a b. (isFolder a \<and> \<not> isFolder b) \<or>
        (isFolder a = isFolder b \<and> lc (name a) (name b) \<le> 0))
      (filter ?keep (sortItems lc items))"
    by (simp add: compareItems_le_iff)
  have perm: "mset (filter ?keep (sortItems lc items)) = mset (filter ?keep items)"
    by (simp add: sortItems_def mset_sortBy)
  have stable: "filter (\<lambda>i. isFolder i = isFolder k \<and> lc (name k) (name i) = 0)
        (filter ?keep (sortItems lc items)) =
      filter (\<lambda>i. isFolder i = isFolder k \<and> lc (name k) (name i) = 0) (filter ?keep items)"
    for k
  proof -
    have "filter (\<lambda>y. ?le k y \<and> ?le y k) (sortItems lc items) =
          filter (\<lambda>y. ?le k y \<and> ?le y k) items"
      unfolding sortItems_def
      by (rule filter_sortBy_stable) (use assms compareItems_trans in blast)
    then have "filter (\<lambda>i. isFolder i = isFolder k \<and> lc (name k) (name i) = 0)
          (sortItems lc items) =
        filter (\<lambda>i. isFolder i = isFolder k \<and> lc (name k) (name i) = 0) items"
      by (simp add: compareItems_equiv_iff[OF assms])
    then have "filter ?keep (filter (\<lambda>i. isFolder i = isFolder k \<and> lc (name k) (name i) = 0)
          (sortItems lc items)) =
        filter ?keep (filter (\<lambda>i. isFolder i = isFolder k \<and> lc (name k) (name i) = 0) items)"
      by simp
    then show ?thesis by (simp add: conj_commute)
  qed
  show ?thesis
    unfolding Let_def using ordered perm stable by (simp add: formatFileStructure_Some)
qed
theorem formatFileStructure_ordering_witness:
  "consistentComparator compareLength \<and>
   (let kept = filter (\<lambda>i. \<not> itemIgnored [''*.log''] [''node_modules''] i)
                 (sortItems compareLength
                   [TFile ''bb'', TFolder ''src'' (Some []), TFile ''x.log'', TFile ''a'',
                    TFolder ''node_modules'' None, TFile ''cc''])
    in kept = [TFolder ''src'' (Some []), TFile ''a'', TFile ''bb'', TFile ''cc''] \<and>
       formatFileStructure compareLength [''*.log''] [''node_modules'']
         (Some [TFile ''bb'', TFolder ''src'' (Some []), TFile ''x.log'', TFile ''a'',
                TFolder ''node_modules'' None, TFile ''cc'']) [] =
       join nl (map (renderItem compareLength [''*.log''] [''node_modules''] []) kept))"
  using formatFileStructure_ordering [OF consistent_compareLength,
    of "[''*.log'']" "[''node_modules'']"
       "[TFile ''bb'', TFolder ''src'' (Some []), TFile ''x.log'', TFile ''a'',
         TFolder ''node_modules'' None, TFile ''cc'']" "[]"]
  by (simp add: consistent_compareLength Let_def sortItems_def compareItems_def
      compareLength_def itemIgnored_def fileIgnored_def folderIgnored_def endsWith_def
      replaceStar_def)

text \<open>
  C10. A folder that is not ignored and whose \<open>children\<close> field is absent or not an
  array contributes the entry made of its own line, a line feed, and the literal
  \<open>No files available\<close> with no prefix in front of it. This holds for every prefix,
  that is, at every nesting level, not only for the top-level call.
\<close>

theorem folder_without_children:
  assumes "TFolder n None \<in> set items" and "\<not> folderIgnored igd n"
  shows "\<exists>es1 es2. formatFileStructure lc igf igd (Some items) prefix =
           join nl (es1 @ [prefix @ branchGlyph @ n @ ''/'' @ nl @ ''No files available''] @ es2)"
proof -
  let ?kept = "filter (\<lambda>i. \<not> itemIgnored igf igd i) (sortItems lc items)"
  have "TFolder n None \<in> set ?kept"
    using assms by (simp add: set_sortItems itemIgnored_def)
  then obtain ys zs where split: "?kept = ys @ [TFolder n None] @ zs"
    by (auto dest: split_list)
  have "renderItem lc igf igd prefix (TFolder n None) =
          prefix @ branchGlyph @ n @ ''/'' @ nl @ ''No files available''"
    by (simp add: renderItem_def)
  with split have "formatFileStructure lc igf igd (Some items) prefix =
          join nl (map (renderItem lc igf igd prefix) ys @
            [prefix @ branchGlyph @ n @ ''/'' @ nl @ ''No files available''] @
            map (renderItem lc igf igd prefix) zs)"
    by (simp add: formatFileStructure_Some)
  then show ?thesis by blast
qed
theorem folder_without_children_witness:
  "TFolder ''empty'' None \<in> set [TFile ''a'', TFolder ''empty'' None] \<and>
   \<not> folderIgnored [''node_modules''] ''empty'' \<and>
   (\<exists>es1 es2.
      formatFileStructure compareLength [] [''node_modules'']
        (Some [TFile ''a'', TFolder ''empty'' None]) barGlyph =
      join nl (es1 @ [barGlyph @ branchGlyph @ ''empty'' @ ''/'' @ nl @ ''No files available'']
                 @ es2))"
  using folder_without_children [of "''empty''" "[TFile ''a'', TFolder ''empty'' None]"
    "[''node_modules'']" compareLength "[]" barGlyph]
  by (simp add: folderIgnored_def)

end
